theory Spec2Isabelle
  imports Complex_Main "HOL-Library.AList"
begin

section \<open>Creature model (src/game/pokemon.py)\<close>

text \<open>
  Python's unbounded integers are \<open>int\<close>. Python floats are idealised as \<open>real\<close>: every
  float expression of the source is written with the same operations over the reals.
  \<open>int(x)\<close> on a float truncates towards zero (\<open>py_int\<close>). For the magnitudes the game
  produces (levels up to 100, base stats below 300) the double-precision results of
  \<open>int(1.2 * level ** 2)\<close>, \<open>int(((2 * base + iv) * level) / 100)\<close> and
  \<open>int(base_exp * level_diff / 10)\<close> coincide with the exact ones.

  Record fields keep the source's names, except that the fields of \<open>Move\<close> carry the
  prefix \<open>move_\<close> and those of \<open>Stats\<close> the prefix \<open>base_\<close>, because HOL record fields
  share one name space (\<open>power\<close> is a HOL constant; \<open>attack\<close>, \<open>defense\<close>, \<open>speed\<close>
  are fields of both \<open>Stats\<close> and \<open>Pokemon\<close>).
\<close>

datatype py_error = ZeroDivisionError | IndexError

definition py_int :: "real \<Rightarrow> int" where
  "py_int x = (if 0 \<le> x then \<lfloor>x\<rfloor> else \<lceil>x\<rceil>)"

datatype PokemonType =
    NORMAL | FIRE | WATER | ELECTRIC | GRASS | ICE | FIGHTING | POISON | GROUND
  | FLYING | PSYCHIC | BUG | ROCK | GHOST | DRAGON | DARK | STEEL | FAIRY

record Move =
  move_name :: string
  move_type :: PokemonType
  move_power :: int
  move_accuracy :: int
  move_pp :: int
  move_max_pp :: int
  move_description :: string

text \<open>\<open>Move.use_move\<close>: the move after the call and the returned flag.\<close>

definition use_move :: "Move \<Rightarrow> Move \<times> bool" where
  "use_move m = (if move_pp m > 0 then (m\<lparr>move_pp := move_pp m - 1\<rparr>, True) else (m, False))"

record Stats =
  base_hp :: int
  base_attack :: int
  base_defense :: int
  base_special_attack :: int
  base_special_defense :: int
  base_speed :: int

text \<open>\<open>Stats.calculate_stat\<close>, with the default \<open>iv = 15\<close> that every caller uses.\<close>

definition calculate_stat :: "int \<Rightarrow> int \<Rightarrow> int" where
  "calculate_stat base_stat lvl = py_int (real_of_int ((2 * base_stat + 15) * lvl) / 100) + 5"

text \<open>
  The \<open>"evolution"\<close> entry of a species: \<open>{"level": n, "evolves_to": s}\<close> or
  \<open>{"item": i, "evolves_to": s}\<close>.
\<close>

record Evolution =
  evo_level :: "int option"
  evo_item :: "string option"
  evolves_to :: string

record SpeciesData =
  sd_types :: "PokemonType list"
  sd_base_stats :: Stats
  sd_abilities :: "string list"
  sd_evolution :: "Evolution option"

definition mk_stats :: "int \<Rightarrow> int \<Rightarrow> int \<Rightarrow> int \<Rightarrow> int \<Rightarrow> int \<Rightarrow> Stats" where
  "mk_stats h a d sa sd sp =
     \<lparr>base_hp = h, base_attack = a, base_defense = d, base_special_attack = sa,
      base_special_defense = sd, base_speed = sp\<rparr>"

definition level_evolution :: "int \<Rightarrow> string \<Rightarrow> Evolution option" where
  "level_evolution n s = Some \<lparr>evo_level = Some n, evo_item = None, evolves_to = s\<rparr>"

definition item_evolution :: "string \<Rightarrow> string \<Rightarrow> Evolution option" where
  "item_evolution i s = Some \<lparr>evo_level = None, evo_item = Some i, evolves_to = s\<rparr>"

definition get_species_data :: "string \<Rightarrow> SpeciesData" where
  "get_species_data sp =
    (if sp = ''Bulbasaur'' then
       \<lparr>sd_types = [GRASS, POISON], sd_base_stats = mk_stats 45 49 49 65 65 45,
        sd_abilities = [''Overgrow''], sd_evolution = level_evolution 16 ''Ivysaur''\<rparr>
     else if sp = ''Charmander'' then
       \<lparr>sd_types = [FIRE], sd_base_stats = mk_stats 39 52 43 60 50 65,
        sd_abilities = [''Blaze''], sd_evolution = level_evolution 16 ''Charmeleon''\<rparr>
     else if sp = ''Squirtle'' then
       \<lparr>sd_types = [WATER], sd_base_stats = mk_stats 44 48 65 50 64 43,
        sd_abilities = [''Torrent''], sd_evolution = level_evolution 16 ''Wartortle''\<rparr>
     else if sp = ''Pikachu'' then
       \<lparr>sd_types = [ELECTRIC], sd_base_stats = mk_stats 35 55 40 50 50 90,
        sd_abilities = [''Static''], sd_evolution = item_evolution ''Thunder Stone'' ''Raichu''\<rparr>
     else if sp = ''Rattata'' then
       \<lparr>sd_types = [NORMAL], sd_base_stats = mk_stats 30 56 35 25 35 72,
        sd_abilities = [''Run Away'', ''Guts''], sd_evolution = level_evolution 20 ''Raticate''\<rparr>
     else if sp = ''Caterpie'' then
       \<lparr>sd_types = [BUG], sd_base_stats = mk_stats 45 30 35 20 20 45,
        sd_abilities = [''Shield Dust''], sd_evolution = level_evolution 7 ''Metapod''\<rparr>
     else if sp = ''Pidgey'' then
       \<lparr>sd_types = [NORMAL, FLYING], sd_base_stats = mk_stats 40 45 40 35 35 56,
        sd_abilities = [''Keen Eye'', ''Tangled Feet''], sd_evolution = level_evolution 18 ''Pidgeotto''\<rparr>
     else
       \<lparr>sd_types = [NORMAL], sd_base_stats = mk_stats 50 50 50 50 50 50,
        sd_abilities = [''Unknown''], sd_evolution = None\<rparr>)"

definition mk_move :: "string \<Rightarrow> PokemonType \<Rightarrow> int \<Rightarrow> int \<Rightarrow> int \<Rightarrow> int \<Rightarrow> string \<Rightarrow> Move" where
  "mk_move n t pw acc p mp d =
     \<lparr>move_name = n, move_type = t, move_power = pw, move_accuracy = acc, move_pp = p,
      move_max_pp = mp, move_description = d\<rparr>"

text \<open>The \<open>move_database\<close> of \<open>get_initial_moves\<close> (descriptions shortened to the empty string).\<close>

definition move_database :: "(string \<times> Move) list" where
  "move_database =
    [(''Tackle'', mk_move ''Tackle'' NORMAL 40 100 35 35 ''''),
     (''Growl'', mk_move ''Growl'' NORMAL 0 100 40 40 ''''),
     (''Vine Whip'', mk_move ''Vine Whip'' GRASS 45 100 25 25 ''''),
     (''Ember'', mk_move ''Ember'' FIRE 40 100 25 25 ''''),
     (''Water Gun'', mk_move ''Water Gun'' WATER 40 100 25 25 ''''),
     (''Thunder Shock'', mk_move ''Thunder Shock'' ELECTRIC 40 100 30 30 ''''),
     (''Quick Attack'', mk_move ''Quick Attack'' NORMAL 40 100 30 30 ''''),
     (''String Shot'', mk_move ''String Shot'' BUG 0 95 40 40 ''''),
     (''Gust'', mk_move ''Gust'' FLYING 40 100 35 35 '''')]"

definition species_moves :: "(string \<times> string list) list" where
  "species_moves =
    [(''Bulbasaur'', [''Tackle'', ''Growl'', ''Vine Whip'']),
     (''Charmander'', [''Tackle'', ''Growl'', ''Ember'']),
     (''Squirtle'', [''Tackle'', ''Water Gun'']),
     (''Pikachu'', [''Thunder Shock'', ''Quick Attack'']),
     (''Rattata'', [''Tackle'', ''Quick Attack'']),
     (''Caterpie'', [''Tackle'', ''String Shot'']),
     (''Pidgey'', [''Tackle'', ''Gust''])]"

definition get_initial_moves :: "string \<Rightarrow> Move list" where
  "get_initial_moves sp =
     (let move_names = (case map_of species_moves sp of Some ns \<Rightarrow> ns | None \<Rightarrow> [''Tackle''])
      in List.map_filter (map_of move_database) move_names)"

text \<open>
  The fields of \<open>Pokemon\<close> that the battle, experience and capture code reads or writes.
  Left out: \<open>is_shiny\<close>, \<open>nature\<close>, \<open>ability\<close>, \<open>friendship\<close>, \<open>catch_level\<close> and the
  stage modifiers, which none of the modelled operations reads or writes after
  construction.
\<close>

record Pokemon =
  species :: string
  level :: int
  nickname :: string
  experience :: int
  experience_to_next_level :: int
  species_data :: SpeciesData
  types :: "PokemonType list"
  base_stats :: Stats
  max_hp :: int
  current_hp :: int
  attack :: int
  defense :: int
  special_attack :: int
  special_defense :: int
  speed :: int
  status_condition :: "string option"
  status_turns :: int
  moves :: "Move list"
  original_trainer :: "string option"
  catch_location :: "string option"

definition calculate_exp_to_next_level :: "Pokemon \<Rightarrow> int" where
  "calculate_exp_to_next_level p = py_int (1.2 * real_of_int ((level p) ^ 2))"

text \<open>\<open>Pokemon.__init__(species, level)\<close>.\<close>

definition new_Pokemon :: "string \<Rightarrow> int \<Rightarrow> Pokemon" where
  "new_Pokemon sp lvl =
    (let sd = get_species_data sp;
         bs = sd_base_stats sd;
         mh = calculate_stat (base_hp bs) lvl
     in \<lparr>species = sp, level = lvl, nickname = sp, experience = 0,
         experience_to_next_level = py_int (1.2 * real_of_int (lvl ^ 2)),
         species_data = sd, types = sd_types sd, base_stats = bs,
         max_hp = mh, current_hp = mh,
         attack = calculate_stat (base_attack bs) lvl,
         defense = calculate_stat (base_defense bs) lvl,
         special_attack = calculate_stat (base_special_attack bs) lvl,
         special_defense = calculate_stat (base_special_defense bs) lvl,
         speed = calculate_stat (base_speed bs) lvl,
         status_condition = None, status_turns = 0,
         moves = get_initial_moves sp,
         original_trainer = None, catch_location = None\<rparr>)"

text \<open>
  \<open>Pokemon.level_up\<close>: the creature after the call and the returned flag. The statements
  are applied in the source's order; the flag is the result of the evolution test.
\<close>

definition level_up :: "Pokemon \<Rightarrow> Pokemon \<times> bool" where
  "level_up p =
    (if level p \<ge> 100 then (p, False)
     else
       let p1 = p\<lparr>level := level p + 1\<rparr>;
           p2 = p1\<lparr>experience := 0\<rparr>;
           p3 = p2\<lparr>experience_to_next_level := calculate_exp_to_next_level p2\<rparr>;
           old_max_hp = max_hp p3;
           p4 = p3\<lparr>max_hp := calculate_stat (base_hp (base_stats p3)) (level p3)\<rparr>;
           p5 = p4\<lparr>current_hp := current_hp p4 + (max_hp p4 - old_max_hp)\<rparr>;
           p6 = p5\<lparr>attack := calculate_stat (base_attack (base_stats p5)) (level p5),
                    defense := calculate_stat (base_defense (base_stats p5)) (level p5),
                    special_attack := calculate_stat (base_special_attack (base_stats p5)) (level p5),
                    special_defense := calculate_stat (base_special_defense (base_stats p5)) (level p5),
                    speed := calculate_stat (base_speed (base_stats p5)) (level p5)\<rparr>
       in (p6, (case sd_evolution (species_data p6) of
                  None \<Rightarrow> False
                | Some ev \<Rightarrow> (case evo_level ev of None \<Rightarrow> False | Some n \<Rightarrow> level p6 \<ge> n))))"

text \<open>\<open>Pokemon.gain_experience\<close>: one \<open>if\<close>, no loop.\<close>

definition gain_experience :: "Pokemon \<Rightarrow> int \<Rightarrow> Pokemon \<times> bool" where
  "gain_experience p amount =
    (let p1 = p\<lparr>experience := experience p + amount\<rparr>
     in if experience p1 \<ge> experience_to_next_level p1 then level_up p1 else (p1, False))"

text \<open>\<open>Pokemon.heal(amount=None)\<close>.\<close>

definition heal :: "Pokemon \<Rightarrow> int option \<Rightarrow> Pokemon" where
  "heal p amount =
    (let p1 = (case amount of
                 None \<Rightarrow> p\<lparr>current_hp := max_hp p\<rparr>
               | Some a \<Rightarrow> p\<lparr>current_hp := min (max_hp p) (current_hp p + a)\<rparr>)
     in if current_hp p1 = max_hp p1 then p1\<lparr>status_condition := None, status_turns := 0\<rparr> else p1)"

definition take_damage :: "Pokemon \<Rightarrow> int \<Rightarrow> Pokemon \<times> bool" where
  "take_damage p damage =
    (let p1 = p\<lparr>current_hp := max 0 (current_hp p - damage)\<rparr> in (p1, current_hp p1 = 0))"

definition is_fainted :: "Pokemon \<Rightarrow> bool" where
  "is_fainted p = (current_hp p \<le> 0)"

section \<open>Randomness\<close>

text \<open>
  The generator is explicit: \<open>uniform_src k\<close> is the value the \<open>k\<close>-th call would return
  if it is \<open>random.random()\<close>, \<open>choice_src k\<close> the index it would pick if it is
  \<open>random.choice\<close>, and \<open>used\<close> counts the calls made so far. An operation performs no
  random draw exactly when it returns the generator unchanged.
\<close>

record rng =
  uniform_src :: "nat \<Rightarrow> real"
  choice_src :: "nat \<Rightarrow> nat"
  used :: nat

definition random_random :: "rng \<Rightarrow> real \<times> rng" where
  "random_random g = (uniform_src g (used g), g\<lparr>used := Suc (used g)\<rparr>)"

text \<open>\<open>random.uniform(a, b)\<close> is \<open>a + (b - a) * random()\<close>.\<close>

definition random_uniform :: "real \<Rightarrow> real \<Rightarrow> rng \<Rightarrow> real \<times> rng" where
  "random_uniform a b g = (let (u, g') = random_random g in (a + (b - a) * u, g'))"

text \<open>\<open>random.choice(xs)\<close> on a non-empty list: the position picked.\<close>

definition random_choice :: "nat \<Rightarrow> rng \<Rightarrow> nat \<times> rng" where
  "random_choice n g = (choice_src g (used g) mod n, g\<lparr>used := Suc (used g)\<rparr>)"

section \<open>Type effectiveness and damage\<close>

fun TYPE_EFFECTIVENESS :: "PokemonType \<Rightarrow> (PokemonType \<times> real) list option" where
  "TYPE_EFFECTIVENESS FIRE =
     Some [(GRASS, 2), (ICE, 2), (BUG, 2), (STEEL, 2),
           (FIRE, 1/2), (WATER, 1/2), (ROCK, 1/2), (DRAGON, 1/2)]"
| "TYPE_EFFECTIVENESS WATER =
     Some [(FIRE, 2), (GROUND, 2), (ROCK, 2), (WATER, 1/2), (GRASS, 1/2), (DRAGON, 1/2)]"
| "TYPE_EFFECTIVENESS ELECTRIC =
     Some [(WATER, 2), (FLYING, 2), (ELECTRIC, 1/2), (GRASS, 1/2), (DRAGON, 1/2), (GROUND, 0)]"
| "TYPE_EFFECTIVENESS GRASS =
     Some [(WATER, 2), (GROUND, 2), (ROCK, 2), (FIRE, 1/2), (GRASS, 1/2), (POISON, 1/2),
           (FLYING, 1/2), (BUG, 1/2), (DRAGON, 1/2), (STEEL, 1/2)]"
| "TYPE_EFFECTIVENESS _ = None"

definition get_type_effectiveness_static :: "PokemonType \<Rightarrow> PokemonType \<Rightarrow> real" where
  "get_type_effectiveness_static attack_type target_type =
     (case TYPE_EFFECTIVENESS attack_type of
        Some row \<Rightarrow> (case map_of row target_type of Some m \<Rightarrow> m | None \<Rightarrow> 1)
      | None \<Rightarrow> 1)"

definition get_type_effectiveness :: "PokemonType \<Rightarrow> PokemonType list \<Rightarrow> real" where
  "get_type_effectiveness attack_type target_types =
     foldl (\<lambda>effectiveness target_type.
              case TYPE_EFFECTIVENESS attack_type of
                Some row \<Rightarrow> effectiveness * (case map_of row target_type of Some m \<Rightarrow> m | None \<Rightarrow> 1)
              | None \<Rightarrow> effectiveness)
           1 target_types"

text \<open>
  \<open>Pokemon.calculate_damage(move, target)\<close>. The method reads its arguments and mutates
  nothing; it returns the damage and the generator after its draws. A zero defence stat
  makes the float division raise.
\<close>

definition calculate_damage :: "Pokemon \<Rightarrow> Move \<Rightarrow> Pokemon \<Rightarrow> rng \<Rightarrow> py_error + (int \<times> rng)" where
  "calculate_damage self m target g =
    (if move_power m = 0 then Inr (0, g)
     else
       let level_factor = (2 * real_of_int (level self) / 5) + 2;
           attack_stat = (if move_type m \<in> set [NORMAL, FIGHTING] then attack self
                          else special_attack self);
           defense_stat = (if move_type m \<in> set [NORMAL, FIGHTING] then defense target
                           else special_defense target)
       in if defense_stat = 0 then Inl ZeroDivisionError
          else
            let damage0 = ((level_factor * real_of_int (move_power m) * real_of_int attack_stat
                              / real_of_int defense_stat) / 50) + 2;
                damage1 = damage0 * get_type_effectiveness (move_type m) (types target);
                damage2 = (if move_type m \<in> set (types self) then damage1 * 1.5 else damage1);
                (r, g') = random_uniform 0.85 1.0 g
            in Inr (py_int (damage2 * r), g'))"

text \<open>\<open>Pokemon.get_catch_rate\<close>.\<close>

definition catch_rates :: "(string \<times> int) list" where
  "catch_rates =
     [(''Bulbasaur'', 45), (''Charmander'', 45), (''Squirtle'', 45),
      (''Pikachu'', 190), (''Rattata'', 255), (''Caterpie'', 255), (''Pidgey'', 255)]"

definition get_catch_rate :: "Pokemon \<Rightarrow> int" where
  "get_catch_rate p = (case map_of catch_rates (species p) of Some r \<Rightarrow> r | None \<Rightarrow> 100)"

section \<open>Inventory and trainer (src/game/trainer.py)\<close>

text \<open>
  A Python dictionary keeps its keys in insertion order, and the engine takes the first
  Pokeball of the inventory, so \<open>Inventory.items\<close> is an association list:
  \<open>AList.update\<close> overwrites in place or appends, \<open>AList.delete\<close> removes the key.
\<close>

record ItemData =
  item_type :: string
  item_catch_rate :: "real option"
  item_heal_amount :: "int option"
  item_revive :: bool

definition mk_item :: "string \<Rightarrow> real option \<Rightarrow> int option \<Rightarrow> bool \<Rightarrow> ItemData" where
  "mk_item t c h r = \<lparr>item_type = t, item_catch_rate = c, item_heal_amount = h, item_revive = r\<rparr>"

definition get_item_database :: "(string \<times> ItemData) list" where
  "get_item_database =
    [(''Pokeball'', mk_item ''pokeball'' (Some 1.0) None False),
     (''Great Ball'', mk_item ''pokeball'' (Some 1.5) None False),
     (''Ultra Ball'', mk_item ''pokeball'' (Some 2.0) None False),
     (''Master Ball'', mk_item ''pokeball'' (Some 255.0) None False),
     (''Potion'', mk_item ''healing'' None (Some 20) False),
     (''Super Potion'', mk_item ''healing'' None (Some 50) False),
     (''Hyper Potion'', mk_item ''healing'' None (Some 200) False),
     (''Max Potion'', mk_item ''healing'' None (Some 999) False),
     (''Revive'', mk_item ''healing'' None None True),
     (''Thunder Stone'', mk_item ''evolution'' None None False),
     (''Fire Stone'', mk_item ''evolution'' None None False),
     (''Water Stone'', mk_item ''evolution'' None None False),
     (''Leaf Stone'', mk_item ''evolution'' None None False),
     (''Rare Candy'', mk_item ''misc'' None None False),
     (''Bicycle'', mk_item ''key'' None None False),
     (''Pokedex'', mk_item ''key'' None None False)]"

record Inventory =
  items :: "(string \<times> int) list"

definition add_item :: "Inventory \<Rightarrow> string \<Rightarrow> int \<Rightarrow> Inventory" where
  "add_item bag item_name quantity =
     (case map_of (items bag) item_name of
        Some q \<Rightarrow> bag\<lparr>items := AList.update item_name (q + quantity) (items bag)\<rparr>
      | None \<Rightarrow> bag\<lparr>items := AList.update item_name quantity (items bag)\<rparr>)"

definition remove_item :: "Inventory \<Rightarrow> string \<Rightarrow> int \<Rightarrow> Inventory \<times> bool" where
  "remove_item bag item_name quantity =
     (case map_of (items bag) item_name of
        Some q \<Rightarrow>
          if q \<ge> quantity then
            (if q - quantity = 0 then bag\<lparr>items := AList.delete item_name (items bag)\<rparr>
             else bag\<lparr>items := AList.update item_name (q - quantity) (items bag)\<rparr>, True)
          else (bag, False)
      | None \<Rightarrow> (bag, False))"

text \<open>\<open>self.items.get(item_name, 0)\<close>.\<close>

definition item_count :: "Inventory \<Rightarrow> string \<Rightarrow> int" where
  "item_count bag item_name = (case map_of (items bag) item_name of Some q \<Rightarrow> q | None \<Rightarrow> 0)"

definition has_item :: "Inventory \<Rightarrow> string \<Rightarrow> int \<Rightarrow> bool" where
  "has_item bag item_name quantity = (item_count bag item_name \<ge> quantity)"

definition get_items_by_type :: "Inventory \<Rightarrow> string \<Rightarrow> (string \<times> int) list" where
  "get_items_by_type bag t =
     filter (\<lambda>(name, qty). (case map_of get_item_database name of
                               Some d \<Rightarrow> item_type d = t
                             | None \<Rightarrow> False))
            (items bag)"

text \<open>\<open>Inventory.__init__\<close>: ten Pokeballs and five Potions.\<close>

definition new_Inventory :: Inventory where
  "new_Inventory = add_item (add_item \<lparr>items = []\<rparr> ''Pokeball'' 10) ''Potion'' 5"

text \<open>
  The fields of \<open>Trainer\<close> that the battle and capture code reads or writes; the entries
  of the \<open>stats\<close> dictionary are fields with the prefix \<open>stat_\<close>.
\<close>

record Trainer =
  trainer_name :: string
  current_location :: string
  pokemon_team :: "Pokemon list"
  pokemon_box :: "Pokemon list"
  max_team_size :: nat
  inventory :: Inventory
  pokedex_seen :: "string set"
  pokedex_caught :: "string set"
  stat_pokemon_caught :: int
  stat_battles_won :: int
  stat_battles_lost :: int
  stat_items_used :: int

definition new_Trainer :: "string \<Rightarrow> Trainer" where
  "new_Trainer n =
     \<lparr>trainer_name = n, current_location = ''pallet_town'', pokemon_team = [], pokemon_box = [],
      max_team_size = 6, inventory = new_Inventory, pokedex_seen = {}, pokedex_caught = {},
      stat_pokemon_caught = 0, stat_battles_won = 0, stat_battles_lost = 0, stat_items_used = 0\<rparr>"

text \<open>
  \<open>Trainer.add_pokemon(pokemon, caught)\<close>: the trainer, the creature as stored (the call
  writes its catch information) and the returned flag (\<open>True\<close>: team, \<open>False\<close>: box).
\<close>

definition add_pokemon :: "Trainer \<Rightarrow> Pokemon \<Rightarrow> bool \<Rightarrow> Trainer \<times> Pokemon \<times> bool" where
  "add_pokemon t p caught =
    (let p1 = (if caught then p\<lparr>original_trainer := Some (trainer_name t),
                                catch_location := Some (current_location t)\<rparr> else p);
         t1 = (if caught then t\<lparr>stat_pokemon_caught := stat_pokemon_caught t + 1,
                                pokedex_caught := insert (species p1) (pokedex_caught t)\<rparr> else t);
         t2 = t1\<lparr>pokedex_seen := insert (species p1) (pokedex_seen t1)\<rparr>
     in if length (pokemon_team t2) < max_team_size t2
        then (t2\<lparr>pokemon_team := pokemon_team t2 @ [p1]\<rparr>, p1, True)
        else (t2\<lparr>pokemon_box := pokemon_box t2 @ [p1]\<rparr>, p1, False))"

text \<open>\<open>Trainer.get_active_pokemon\<close>: the position of the first creature that has not fainted.\<close>

fun first_usable :: "Pokemon list \<Rightarrow> nat option" where
  "first_usable [] = None"
| "first_usable (p # ps) =
     (if \<not> is_fainted p then Some 0 else map_option Suc (first_usable ps))"

definition get_active_pokemon :: "Trainer \<Rightarrow> nat option" where
  "get_active_pokemon t = first_usable (pokemon_team t)"

definition has_usable_pokemon :: "Trainer \<Rightarrow> bool" where
  "has_usable_pokemon t = list_ex (\<lambda>p. \<not> is_fainted p) (pokemon_team t)"

text \<open>
  \<open>Trainer.use_item(item_name, target_pokemon)\<close> with a target: the trainer (inventory and
  statistics), the target after the call, and the returned flag. The target is an object
  of the team; the caller of the model stores it back.
\<close>

definition use_item :: "Trainer \<Rightarrow> string \<Rightarrow> Pokemon \<Rightarrow> Trainer \<times> Pokemon \<times> bool" where
  "use_item t item_name target =
    (if \<not> has_item (inventory t) item_name 1 then (t, target, False)
     else case map_of get_item_database item_name of
        None \<Rightarrow> (t, target, False)
      | Some item_data \<Rightarrow>
          if item_type item_data = ''healing'' then
            (let target1 =
                   (case item_heal_amount item_data of
                      Some h \<Rightarrow> (if h = 999 then heal target None else heal target (Some h))
                    | None \<Rightarrow>
                        (if item_revive item_data \<and> is_fainted target
                         then target\<lparr>current_hp := max_hp target div 2\<rparr> else target));
                 t1 = t\<lparr>inventory := fst (remove_item (inventory t) item_name 1)\<rparr>;
                 t2 = t1\<lparr>stat_items_used := stat_items_used t1 + 1\<rparr>
             in (t2, target1, True))
          else if item_type item_data = ''misc'' \<and> item_name = ''Rare Candy'' then
            (let target1 = fst (gain_experience target (experience_to_next_level target));
                 t1 = t\<lparr>inventory := fst (remove_item (inventory t) item_name 1)\<rparr>;
                 t2 = t1\<lparr>stat_items_used := stat_items_used t1 + 1\<rparr>
             in (t2, target1, True))
          else (t, target, False))"

text \<open>
  The local variable \<open>catch_probability\<close> of \<open>Trainer.catch_pokemon\<close> (the statements
  from \<open>item_database = ...\<close> to \<open>catch_probability = min(1.0, catch_probability)\<close>), as a
  function of the two arguments it is computed from, for \<open>max_hp\<close> other than 0.
\<close>

definition catch_probability :: "Pokemon \<Rightarrow> string \<Rightarrow> real" where
  "catch_probability wild_pokemon pokeball_type =
    (let ball_modifier =
           (case map_of get_item_database pokeball_type of
              Some d \<Rightarrow> (case item_catch_rate d of Some c \<Rightarrow> c | None \<Rightarrow> 1.0)
            | None \<Rightarrow> 1.0);
         catch_rate = get_catch_rate wild_pokemon;
         hp_modifier = real_of_int (3 * max_hp wild_pokemon - 2 * current_hp wild_pokemon)
                         / real_of_int (3 * max_hp wild_pokemon);
         status_modifier =
           (if status_condition wild_pokemon \<in> set [Some ''sleep'', Some ''freeze'']
            then 2.0
            else if status_condition wild_pokemon
                      \<in> set [Some ''paralyze'', Some ''burn'', Some ''poison'']
            then 1.5 else 1.0);
         catch_probability0 =
           (real_of_int catch_rate * ball_modifier * hp_modifier * status_modifier) / 255
     in min 1.0 catch_probability0)"

text \<open>
  \<open>Trainer.catch_pokemon(wild_pokemon, pokeball_type)\<close>: the trainer, the wild creature
  after the call, the returned flag and the generator. The division by \<open>3 * max_hp\<close>
  raises when \<open>max_hp\<close> is 0.
\<close>

definition catch_pokemon ::
  "Trainer \<Rightarrow> Pokemon \<Rightarrow> string \<Rightarrow> rng \<Rightarrow> py_error + (Trainer \<times> Pokemon \<times> bool \<times> rng)" where
  "catch_pokemon t wild_pokemon pokeball_type g =
    (if \<not> has_item (inventory t) pokeball_type 1 then Inr (t, wild_pokemon, False, g)
     else if 3 * max_hp wild_pokemon = 0 then Inl ZeroDivisionError
     else
       let p = catch_probability wild_pokemon pokeball_type;
           t1 = t\<lparr>inventory := fst (remove_item (inventory t) pokeball_type 1)\<rparr>;
           (r, g') = random_random g
       in if r < p then
            (let w1 = heal wild_pokemon None;
                 (t2, w2, in_team) = add_pokemon t1 w1 True
             in Inr (t2, w2, True, g'))
          else Inr (t1, wild_pokemon, False, g'))"

section \<open>Battle engine (src/game/game_engine.py)\<close>

text \<open>
  The messages that \<open>battle_loop\<close>, \<open>opponent_turn\<close> and \<open>attempt_catch\<close> pass to the
  display, one constructor for each format string, with the values it interpolates.
\<close>

datatype message =
    NoPPLeft string
  | UsedMove string string
  | DealtDamage int
  | DealtDamageWith int string
  | AttackMissed
  | UsedItem string string
  | CannotUseItem
  | NoUsableItems
  | ComeBack string
  | Go string
  | CannotSwitch
  | NoOtherPokemon
  | CantEscape
  | CantRunFromTrainer
  | FaintedMsg string
  | GainedExperience string int
  | LevelUpShown string int
  | ChooseAnother
  | BattleError
  | DrawMsg

datatype outcome = Victory | Defeat | Draw | Run

text \<open>
  How one pass through the loop body ends: \<open>Proceed\<close> falls through to the next
  statement, \<open>Retry\<close> is a \<open>continue\<close>, \<open>Raised\<close> an exception (caught by the
  \<open>except Exception\<close> of the loop body), \<open>Return\<close> a \<open>return\<close> of the battle result.
\<close>

datatype 'a flow = Proceed 'a | Retry 'a | Raised py_error 'a | Return outcome 'a

text \<open>
  The state of one battle. \<open>player_pokemon\<close> is always an object of the trainer's team
  (it comes from \<open>get_active_pokemon\<close> or from \<open>pokemon_team[choice - 1]\<close>), so the model
  keeps its position \<open>active\<close>; the objects of a team are distinct, so the identity test
  \<open>new_pokemon != player_pokemon\<close> compares positions.
\<close>

record battle =
  trainer :: Trainer
  active :: nat
  opponent_pokemon :: Pokemon
  is_wild :: bool
  battle_turn :: int
  gen :: rng
  shown :: "message list"

text \<open>What the input handler returns to one pass of the loop body.\<close>

record turn_input =
  battle_choice :: "int option"
  move_choice :: "int option"
  item_choice :: "string option"
  pokemon_choice :: "int option"
  replacement_choice :: "int option"

definition player_pokemon :: "battle \<Rightarrow> Pokemon" where
  "player_pokemon b = pokemon_team (trainer b) ! active b"

definition set_player :: "battle \<Rightarrow> Pokemon \<Rightarrow> battle" where
  "set_player b p =
     b\<lparr>trainer := (trainer b)\<lparr>pokemon_team := (pokemon_team (trainer b))[active b := p]\<rparr>\<rparr>"

definition show_message :: "battle \<Rightarrow> message \<Rightarrow> battle" where
  "show_message b m = b\<lparr>shown := shown b @ [m]\<rparr>"

text \<open>
  A Python list subscript on a list of length \<open>n\<close>: the position read, or \<open>None\<close> where
  Python raises \<open>IndexError\<close>. Negative subscripts count from the end.
\<close>

definition py_index :: "nat \<Rightarrow> int \<Rightarrow> nat option" where
  "py_index n i =
     (if 0 \<le> i \<and> i < int n then Some (nat i)
      else if i < 0 \<and> - int n \<le> i then Some (nat (int n + i))
      else None)"

definition get_effectiveness_message :: "PokemonType \<Rightarrow> PokemonType list \<Rightarrow> string" where
  "get_effectiveness_message attack_type target_types =
     (let effectiveness =
            foldl (\<lambda>e target_type. e * get_type_effectiveness_static attack_type target_type)
                  1.0 target_types
      in if effectiveness > 1.0 then ''It's super effective!''
         else if effectiveness < 1.0 then ''It's not very effective...''
         else '''')"

definition calculate_exp_gain :: "Pokemon \<Rightarrow> Pokemon \<Rightarrow> int" where
  "calculate_exp_gain player opponent =
     (let base_exp = level opponent * 10;
          level_diff = max 1 (level opponent - level player + 5)
      in py_int (real_of_int (base_exp * level_diff) / 10))"

text \<open>The \<open>battle_choice == 1\<close> branch.\<close>

definition fight_action :: "battle \<Rightarrow> turn_input \<Rightarrow> battle flow" where
  "fight_action b inp =
    (case move_choice inp of
       None \<Rightarrow> Retry b
     | Some mc \<Rightarrow>
         if mc \<noteq> 0 \<and> mc \<le> int (length (moves (player_pokemon b))) then
           (case py_index (length (moves (player_pokemon b))) (mc - 1) of
              None \<Rightarrow> Raised IndexError b
            | Some i \<Rightarrow>
                let (m, ok) = use_move (moves (player_pokemon b) ! i) in
                if \<not> ok then Retry (show_message b (NoPPLeft (move_name m)))
                else
                  let b1 = set_player b
                             ((player_pokemon b)\<lparr>moves := (moves (player_pokemon b))[i := m]\<rparr>)
                  in case calculate_damage (player_pokemon b1) m (opponent_pokemon b1) (gen b1) of
                       Inl e \<Rightarrow> Raised e b1
                     | Inr (damage, g1) \<Rightarrow>
                         let b2 = b1\<lparr>gen := g1\<rparr>;
                             b3 = b2\<lparr>opponent_pokemon :=
                                       fst (take_damage (opponent_pokemon b2) damage)\<rparr>;
                             b4 = show_message b3
                                    (UsedMove (nickname (player_pokemon b3)) (move_name m));
                             effectiveness =
                               get_effectiveness_message (move_type m) (types (opponent_pokemon b4))
                         in Proceed
                              (if damage > 0 then
                                 (if effectiveness \<noteq> []
                                  then show_message b4 (DealtDamageWith damage effectiveness)
                                  else show_message b4 (DealtDamage damage))
                               else show_message b4 AttackMissed))
         else Retry b)"

text \<open>The \<open>battle_choice == 2\<close> branch.\<close>

definition item_action :: "battle \<Rightarrow> turn_input \<Rightarrow> battle flow" where
  "item_action b inp =
    (let healing_items = get_items_by_type (inventory (trainer b)) ''healing'' in
     if healing_items \<noteq> [] then
       (case item_choice inp of
          None \<Rightarrow> Retry b
        | Some ic \<Rightarrow>
            if ic \<noteq> [] then
              (let (t1, p1, ok) = use_item (trainer b) ic (player_pokemon b);
                   b1 = set_player (b\<lparr>trainer := t1\<rparr>) p1
               in if ok then Proceed (show_message b1 (UsedItem ic (nickname (player_pokemon b1))))
                  else Retry (show_message b1 CannotUseItem))
            else Retry b)
     else Retry (show_message b NoUsableItems))"

text \<open>The \<open>battle_choice == 3\<close> branch.\<close>

definition switch_action :: "battle \<Rightarrow> turn_input \<Rightarrow> battle flow" where
  "switch_action b inp =
    (let team = pokemon_team (trainer b) in
     if length team > 1 then
       (case pokemon_choice inp of
          None \<Rightarrow> Retry b
        | Some pc \<Rightarrow>
            if pc \<noteq> 0 \<and> pc \<le> int (length team) then
              (case py_index (length team) (pc - 1) of
                 None \<Rightarrow> Raised IndexError b
               | Some i \<Rightarrow>
                   if i \<noteq> active b \<and> \<not> is_fainted (team ! i) then
                     (let b1 = show_message b (ComeBack (nickname (player_pokemon b)));
                          b2 = show_message b1 (Go (nickname (team ! i)))
                      in Proceed (b2\<lparr>active := i\<rparr>))
                   else Retry (show_message b CannotSwitch))
            else Retry b)
     else Retry (show_message b NoOtherPokemon))"

text \<open>The \<open>battle_choice == 4\<close> branch.\<close>

definition run_action :: "battle \<Rightarrow> battle flow" where
  "run_action b =
    (if is_wild b then
       (let (r, g1) = random_random (gen b); b1 = b\<lparr>gen := g1\<rparr>
        in if r < 0.8 then Return Run b1 else Proceed (show_message b1 CantEscape))
     else Retry (show_message b CantRunFromTrainer))"

text \<open>The block under \<open>if opponent_pokemon.is_fainted()\<close>.\<close>

definition award_victory :: "battle \<Rightarrow> battle" where
  "award_victory b =
    (let b1 = show_message b (FaintedMsg (species (opponent_pokemon b)));
         exp_gained = calculate_exp_gain (player_pokemon b1) (opponent_pokemon b1);
         b2 = set_player b1 (fst (gain_experience (player_pokemon b1) exp_gained));
         b3 = show_message b2 (GainedExperience (nickname (player_pokemon b2)) exp_gained);
         (p, evolves) = level_up (player_pokemon b3);
         b4 = set_player b3 p
     in if evolves then show_message b4 (LevelUpShown (species p) (level p)) else b4)"

text \<open>\<open>GameEngine.opponent_turn\<close>.\<close>

definition opponent_turn :: "battle \<Rightarrow> battle flow" where
  "opponent_turn b =
    (if moves (opponent_pokemon b) \<noteq> [] then
       (let (k, g1) = random_choice (length (moves (opponent_pokemon b))) (gen b);
            m = moves (opponent_pokemon b) ! k;
            b1 = b\<lparr>gen := g1\<rparr>
        in case calculate_damage (opponent_pokemon b1) m (player_pokemon b1) (gen b1) of
             Inl e \<Rightarrow> Raised e b1
           | Inr (damage, g2) \<Rightarrow>
               let b2 = b1\<lparr>gen := g2\<rparr>;
                   b3 = set_player b2 (fst (take_damage (player_pokemon b2) damage));
                   b4 = show_message b3 (UsedMove (species (opponent_pokemon b3)) (move_name m))
               in Proceed
                    (if damage > 0 then
                       (if types (player_pokemon b4) \<noteq> [] then
                          show_message b4
                            (DealtDamageWith damage
                               (get_effectiveness_message (move_type m) (types (player_pokemon b4))))
                        else show_message b4 (DealtDamage damage))
                     else show_message b4 AttackMissed))
     else Proceed b)"

text \<open>The block under \<open>if player_pokemon.is_fainted()\<close>, after the opponent's turn.\<close>

definition replace_fainted :: "battle \<Rightarrow> turn_input \<Rightarrow> battle flow" where
  "replace_fainted b inp =
    (if is_fainted (player_pokemon b) then
       (let b1 = show_message b (FaintedMsg (nickname (player_pokemon b)));
            team = pokemon_team (trainer b1)
        in if has_usable_pokemon (trainer b1) then
             (let b2 = show_message b1 ChooseAnother in
              case replacement_choice inp of
                None \<Rightarrow> Return Defeat b2
              | Some pc \<Rightarrow>
                  if pc \<noteq> 0 \<and> pc \<le> int (length team) then
                    (case py_index (length team) (pc - 1) of
                       None \<Rightarrow> Raised IndexError b2
                     | Some i \<Rightarrow>
                         if \<not> is_fainted (team ! i)
                         then Proceed ((show_message b2 (Go (nickname (team ! i))))\<lparr>active := i\<rparr>)
                         else Return Defeat b2)
                  else Return Defeat b2)
           else Return Defeat b1)
     else Proceed b)"

text \<open>Everything after the action of the player, to the end of the loop body.\<close>

definition after_action :: "battle \<Rightarrow> turn_input \<Rightarrow> battle flow" where
  "after_action b inp =
    (if is_fainted (opponent_pokemon b) then Return Victory (award_victory b)
     else case opponent_turn b of
            Proceed b1 \<Rightarrow> replace_fainted b1 inp
          | other \<Rightarrow> other)"

text \<open>
  One pass through the body of the \<open>while\<close> loop of \<open>battle_loop\<close>: the increment of
  \<open>battle_turn\<close>, then the \<open>try\<close> block; the handler of the \<open>try\<close> block shows a message
  and continues.
\<close>

definition battle_iteration :: "battle \<Rightarrow> turn_input \<Rightarrow> battle flow" where
  "battle_iteration b inp =
    (let b0 = b\<lparr>battle_turn := battle_turn b + 1\<rparr>;
         choice = (case battle_choice inp of None \<Rightarrow> 4 | Some c \<Rightarrow> c);
         acted = (if choice = 1 then fight_action b0 inp
                  else if choice = 2 then item_action b0 inp
                  else if choice = 3 then switch_action b0 inp
                  else if choice = 4 then run_action b0
                  else Proceed b0);
         done = (case acted of Proceed b1 \<Rightarrow> after_action b1 inp | other \<Rightarrow> other)
     in case done of
          Raised e b1 \<Rightarrow> Raised e (show_message b1 BattleError)
        | other \<Rightarrow> other)"

text \<open>The state a pass through the loop body ends in.\<close>

fun flow_state :: "'a flow \<Rightarrow> 'a" where
  "flow_state (Proceed s) = s"
| "flow_state (Retry s) = s"
| "flow_state (Raised e s) = s"
| "flow_state (Return r s) = s"

text \<open>
  The \<open>while\<close> loop of \<open>battle_loop\<close> and the statements after it. \<open>inputs k\<close> is what the
  input handler returns during the pass that sets \<open>battle_turn\<close> to \<open>k\<close>. The recursion is
  on a number of passes still allowed; \<open>None\<close> means that this number was used up with
  the loop condition still true. Every pass increments \<open>battle_turn\<close> and the condition
  requires \<open>battle_turn < 100\<close>, so 100 passes always suffice and \<open>battle_loop\<close> never
  yields \<open>None\<close> (lemma \<open>battle_loop_returns\<close>).
\<close>

fun battle_loop_fuel ::
  "nat \<Rightarrow> battle \<Rightarrow> (int \<Rightarrow> turn_input) \<Rightarrow> (outcome \<times> battle) option" where
  "battle_loop_fuel 0 b inputs =
     (if \<not> is_fainted (player_pokemon b) \<and> \<not> is_fainted (opponent_pokemon b)
         \<and> battle_turn b < 100
      then None
      else if battle_turn b \<ge> 100 then Some (Draw, show_message b DrawMsg)
      else Some (Defeat, b))"
| "battle_loop_fuel (Suc n) b inputs =
     (if \<not> is_fainted (player_pokemon b) \<and> \<not> is_fainted (opponent_pokemon b)
         \<and> battle_turn b < 100
      then (case battle_iteration b (inputs (battle_turn b + 1)) of
              Return r b' \<Rightarrow> Some (r, b')
            | other \<Rightarrow> battle_loop_fuel n (flow_state other) inputs)
      else if battle_turn b \<ge> 100 then Some (Draw, show_message b DrawMsg)
      else Some (Defeat, b))"

text \<open>\<open>GameEngine.battle_loop\<close>: \<open>battle_turn = 0\<close>, then the loop.\<close>

definition battle_loop :: "battle \<Rightarrow> (int \<Rightarrow> turn_input) \<Rightarrow> (outcome \<times> battle) option" where
  "battle_loop b inputs = battle_loop_fuel 100 (b\<lparr>battle_turn := 0\<rparr>) inputs"

section \<open>Capture (src/game/game_engine.py)\<close>

text \<open>\<open>GameEngine.calculate_catch_rate\<close>; the division by \<open>max_hp\<close> raises when it is 0.\<close>

definition calculate_catch_rate :: "Pokemon \<Rightarrow> py_error + real" where
  "calculate_catch_rate p =
    (if max_hp p = 0 then Inl ZeroDivisionError
     else
       let base_rate = 0.3;
           hp_factor = 1.0 - (real_of_int (current_hp p) / real_of_int (max_hp p));
           level_factor = max 0.1 (1.0 - (real_of_int (level p) / 100))
       in Inr (min 0.9 (base_rate + (hp_factor * 0.4) + (level_factor * 0.2))))"

text \<open>Which message \<open>attempt_catch\<close> ends with.\<close>

datatype catch_report = Declined | NoPokeballs | Gotcha | SentToPC | BrokeFree

text \<open>
  \<open>GameEngine.attempt_catch\<close>. \<open>wants\<close> is the answer to the yes/no question and
  \<open>nick\<close> what \<open>get_pokemon_nickname\<close> returns. A caught creature is the object that
  \<open>add_pokemon\<close> appended to the team or the box, so the nickname is written there too.
\<close>

definition attempt_catch ::
  "Trainer \<Rightarrow> Pokemon \<Rightarrow> bool \<Rightarrow> string \<Rightarrow> rng
     \<Rightarrow> py_error + (Trainer \<times> Pokemon \<times> rng \<times> catch_report)" where
  "attempt_catch t wild_pokemon wants nick g =
    (if \<not> wants then Inr (t, wild_pokemon, g, Declined)
     else case get_items_by_type (inventory t) ''pokeball'' of
        [] \<Rightarrow> Inr (t, wild_pokemon, g, NoPokeballs)
      | (pokeball_name, qty) # rest \<Rightarrow>
          (case calculate_catch_rate wild_pokemon of
             Inl e \<Rightarrow> Inl e
           | Inr catch_rate \<Rightarrow>
               let (r, g1) = random_random g in
               if r < catch_rate then
                 (case catch_pokemon t wild_pokemon pokeball_name g1 of
                    Inl e \<Rightarrow> Inl e
                  | Inr (t1, w1, success, g2) \<Rightarrow>
                      if success then
                        (let w2 = (if nick \<noteq> [] then w1\<lparr>nickname := nick\<rparr> else w1);
                             t2 = (if length (pokemon_team t) < max_team_size t
                                   then t1\<lparr>pokemon_team := butlast (pokemon_team t1) @ [w2]\<rparr>
                                   else t1\<lparr>pokemon_box := butlast (pokemon_box t1) @ [w2]\<rparr>);
                             t3 = t2\<lparr>stat_pokemon_caught := stat_pokemon_caught t2 + 1\<rparr>
                         in Inr (t3, w2, g2, Gotcha))
                      else Inr (t1, w1, g2, SentToPC))
               else
                 Inr (t\<lparr>inventory := fst (remove_item (inventory t) pokeball_name 1)\<rparr>,
                      wild_pokemon, g1, BrokeFree)))"

section \<open>Sub-menu prompts (src/utils/input_handler.py)\<close>









section \<open>Properties and concrete creatures\<close>

text \<open>The HP invariant of the data model.\<close>

definition hp_invariant :: "Pokemon \<Rightarrow> bool" where
  "hp_invariant p = (0 \<le> current_hp p \<and> current_hp p \<le> max_hp p)"

text \<open>
  The maximum HP is the derived one: the constructor, \<open>level_up\<close> and \<open>evolve\<close> are the only
  writers of \<open>max_hp\<close> and each sets it to \<open>calculate_stat\<close> of the base HP at the
  current level; all base HP values of the species table are non-negative.
\<close>

definition stats_consistent :: "Pokemon \<Rightarrow> bool" where
  "stats_consistent p =
     (0 \<le> base_hp (base_stats p) \<and> max_hp p = calculate_stat (base_hp (base_stats p)) (level p))"

text \<open>A sequence of \<open>take_damage\<close> (\<open>gain_experience\<close>) calls on one creature.\<close>

definition take_damage_all :: "Pokemon \<Rightarrow> int list \<Rightarrow> Pokemon" where
  "take_damage_all p ds = foldl (\<lambda>q d. fst (take_damage q d)) p ds"

definition gain_experience_all :: "Pokemon \<Rightarrow> int list \<Rightarrow> Pokemon" where
  "gain_experience_all p xs = foldl (\<lambda>q x. fst (gain_experience q x)) p xs"

definition fainted_rattata :: Pokemon where
  "fainted_rattata = (new_Pokemon ''Rattata'' 3)\<lparr>current_hp := 0\<rparr>"

definition hurt_rattata :: Pokemon where
  "hurt_rattata = (new_Pokemon ''Rattata'' 3)\<lparr>current_hp := 3\<rparr>"

definition caterpie1 :: Pokemon where
  "caterpie1 = new_Pokemon ''Caterpie'' 1"

definition pidgey100 :: Pokemon where
  "pidgey100 = new_Pokemon ''Pidgey'' 100"

definition growl :: Move where
  "growl = mk_move ''Growl'' NORMAL 0 100 40 40 ''''"

definition fixed_rng :: rng where
  "fixed_rng = \<lparr>uniform_src = (\<lambda>_. 1 / 2), choice_src = (\<lambda>_. 0), used = 0\<rparr>"

text \<open>
  The capture formula in the words of the specification: the HP factor, the status
  bonus, the ball modifier of a capture device and the success probability.
\<close>

definition spec_hp_factor :: "Pokemon \<Rightarrow> real" where
  "spec_hp_factor w = real_of_int (3 * max_hp w - 2 * current_hp w) / real_of_int (3 * max_hp w)"

definition spec_status_bonus :: "Pokemon \<Rightarrow> real" where
  "spec_status_bonus w =
     (if status_condition w = Some ''sleep'' \<or> status_condition w = Some ''freeze'' then 2.0
      else if status_condition w = Some ''paralyze'' \<or> status_condition w = Some ''burn''
              \<or> status_condition w = Some ''poison'' then 1.5
      else 1.0)"

definition ball_modifier :: "string \<Rightarrow> real" where
  "ball_modifier ball =
     (case map_of get_item_database ball of
        Some d \<Rightarrow> (case item_catch_rate d of Some c \<Rightarrow> c | None \<Rightarrow> 1.0)
      | None \<Rightarrow> 1.0)"

definition spec_probability :: "Pokemon \<Rightarrow> string \<Rightarrow> real" where
  "spec_probability w ball =
     min 1.0 ((real_of_int (get_catch_rate w) * ball_modifier ball * spec_hp_factor w
                 * spec_status_bonus w) / 255)"

text \<open>The probability of the engine's own gate, as the claim about the capture flow words it.\<close>

definition spec_gate :: "Pokemon \<Rightarrow> real" where
  "spec_gate w =
     min 0.9 (0.3 + (1 - real_of_int (current_hp w) / real_of_int (max_hp w)) * 0.4
                  + max 0.1 (1 - real_of_int (level w) / 100) * 0.2)"

text \<open>
  A generator whose first draw is \<open>a\<close> and whose later draws are \<open>b\<close>, and whether the
  capture flow, run on it, ends with the creature caught.
\<close>

definition two_draws :: "real \<Rightarrow> real \<Rightarrow> rng" where
  "two_draws a b = \<lparr>uniform_src = (\<lambda>k. if k = 0 then a else b), choice_src = (\<lambda>k. 0), used = 0\<rparr>"

definition caught_with :: "Trainer \<Rightarrow> Pokemon \<Rightarrow> string \<Rightarrow> real \<Rightarrow> real \<Rightarrow> bool" where
  "caught_with t w nick a b =
     (case attempt_catch t w True nick (two_draws a b) of
        Inl e \<Rightarrow> False
      | Inr (t', w', g', report) \<Rightarrow> report = Gotcha)"

definition roster_size :: "Trainer \<Rightarrow> nat" where
  "roster_size t = length (pokemon_team t) + length (pokemon_box t)"

text \<open>A new trainer (ten Pokeballs, five Potions) with a level-5 Charmander.\<close>

definition red :: Trainer where
  "red = (new_Trainer ''Red'')\<lparr>pokemon_team := [new_Pokemon ''Charmander'' 5]\<rparr>"

section \<open>Properties of the battle loop and concrete battles\<close>







text \<open>
  Concrete battles: the trainer \<open>red\<close> with a level-5 Charmander against a wild level-3
  Rattata, at turn 0, with every uniform draw 1/2.
\<close>

definition weak_rattata :: Pokemon where
  "weak_rattata = (new_Pokemon ''Rattata'' 3)\<lparr>current_hp := 1\<rparr>"

definition start_of :: "Trainer \<Rightarrow> Pokemon \<Rightarrow> battle" where
  "start_of t opp =
     \<lparr>trainer = t, active = 0, opponent_pokemon = opp, is_wild = True, battle_turn = 0,
      gen = fixed_rng, shown = []\<rparr>"

definition fight_with :: "int option \<Rightarrow> turn_input" where
  "fight_with mc = \<lparr>battle_choice = Some 1, move_choice = mc, item_choice = None,
                    pokemon_choice = None, replacement_choice = None\<rparr>"

text \<open>The same trainer, whose Charmander knows only a Tackle of accuracy 0.\<close>

definition sure_miss :: Trainer where
  "sure_miss = red\<lparr>pokemon_team :=
      [(new_Pokemon ''Charmander'' 5)\<lparr>moves := [mk_move ''Tackle'' NORMAL 40 0 35 35 '''']\<rparr>]\<rparr>"


text \<open>
  The same creature, trainer and battle with the accuracy of every move replaced by \<open>x\<close>,
  and the image of a loop result under a change of state.
\<close>

definition move_with_accuracy :: "int \<Rightarrow> Move \<Rightarrow> Move" where
  "move_with_accuracy x m = m\<lparr>move_accuracy := x\<rparr>"

definition with_accuracy :: "int \<Rightarrow> Pokemon \<Rightarrow> Pokemon" where
  "with_accuracy x p = p\<lparr>moves := map (move_with_accuracy x) (moves p)\<rparr>"

definition trainer_with_accuracy :: "int \<Rightarrow> Trainer \<Rightarrow> Trainer" where
  "trainer_with_accuracy x t =
     t\<lparr>pokemon_team := map (with_accuracy x) (pokemon_team t),
       pokemon_box := map (with_accuracy x) (pokemon_box t)\<rparr>"

definition battle_with_accuracy :: "int \<Rightarrow> battle \<Rightarrow> battle" where
  "battle_with_accuracy x b =
     b\<lparr>trainer := trainer_with_accuracy x (trainer b),
       opponent_pokemon := with_accuracy x (opponent_pokemon b)\<rparr>"

fun map_flow :: "('a \<Rightarrow> 'b) \<Rightarrow> 'a flow \<Rightarrow> 'b flow" where
  "map_flow f (Proceed s) = Proceed (f s)"
| "map_flow f (Retry s) = Retry (f s)"
| "map_flow f (Raised e s) = Raised e (f s)"
| "map_flow f (Return r s) = Return r (f s)"

text \<open>The active creature is a member of the team.\<close>

definition wf_battle :: "battle \<Rightarrow> bool" where
  "wf_battle b = (active b < length (pokemon_team (trainer b)))"


section \<open>Arithmetic of the derived stats\<close>

lemmas eval_defs =
  new_Pokemon_def get_species_data_def mk_stats_def mk_move_def calculate_stat_def py_int_def
  level_evolution_def item_evolution_def get_initial_moves_def species_moves_def
  move_database_def List.map_filter_def calculate_exp_to_next_level_def Let_def

lemma py_int_mono: "x \<le> y \<Longrightarrow> py_int x \<le> py_int y"
  unfolding py_int_def
  by (auto intro: floor_mono ceiling_mono) (smt (verit) ceiling_le_zero zero_le_floor order_trans)

lemma calculate_stat_mono:
  assumes "0 \<le> b" "l \<le> l'"
  shows "calculate_stat b l \<le> calculate_stat b l'"
proof -
  have "(2 * b + 15) * l \<le> (2 * b + 15) * l'"
    using assms by (intro mult_left_mono) auto
  then have "real_of_int ((2 * b + 15) * l) \<le> real_of_int ((2 * b + 15) * l')"
    by (rule of_int_le_iff [THEN iffD2])
  then have "real_of_int ((2 * b + 15) * l) / 100 \<le> real_of_int ((2 * b + 15) * l') / 100"
    by (rule divide_right_mono) simp
  then show ?thesis
    unfolding calculate_stat_def using py_int_mono by fastforce
qed

lemma calculate_stat_ge_5:
  assumes "0 \<le> b" "0 \<le> l"
  shows "5 \<le> calculate_stat b l"
proof -
  have "0 \<le> real_of_int ((2 * b + 15) * l) / 100" using assms by simp
  then have "0 \<le> py_int (real_of_int ((2 * b + 15) * l) / 100)"
    unfolding py_int_def by simp
  then show ?thesis unfolding calculate_stat_def by simp
qed

text \<open>On non-negative arguments the truncation is integer division.\<close>

lemma py_int_div_100: "0 \<le> n \<Longrightarrow> py_int (real_of_int n / 100) = n div 100"
  unfolding py_int_def using floor_divide_of_int_eq [of n 100, where ?'a = real] by simp

lemma calculate_stat_div:
  assumes "0 \<le> (2 * b + 15) * l"
  shows "calculate_stat b l = ((2 * b + 15) * l) div 100 + 5"
  unfolding calculate_stat_def by (simp only: py_int_div_100 [OF assms])

lemma sd_base_hp_nonneg: "0 \<le> base_hp (sd_base_stats (get_species_data sp))"
  by (simp add: get_species_data_def mk_stats_def)

text \<open>The constructor establishes both invariants; levelling up keeps the second.\<close>

lemma new_Pokemon_wf:
  assumes "0 \<le> lvl"
  shows "hp_invariant (new_Pokemon sp lvl) \<and> stats_consistent (new_Pokemon sp lvl)"
  using calculate_stat_ge_5 [OF sd_base_hp_nonneg assms, of sp] sd_base_hp_nonneg [of sp]
  by (simp add: new_Pokemon_def Let_def hp_invariant_def stats_consistent_def)

lemma level_up_consistent:
  "stats_consistent p \<Longrightarrow> stats_consistent (fst (level_up p))"
  by (simp add: level_up_def Let_def stats_consistent_def)

section \<open>Concrete creatures\<close>

lemma hurt_rattata_fields:
  "current_hp hurt_rattata = 3" "max_hp hurt_rattata = 7" "level hurt_rattata = 3"
  "experience hurt_rattata = 0" "experience_to_next_level hurt_rattata = 10"
  "base_hp (base_stats hurt_rattata) = 30"
  by (simp_all add: hurt_rattata_def eval_defs)

lemma caterpie1_fields:
  "current_hp caterpie1 = 6" "max_hp caterpie1 = 6" "level caterpie1 = 1"
  "experience caterpie1 = 0" "experience_to_next_level caterpie1 = 1"
  "base_hp (base_stats caterpie1) = 45"
  "sd_evolution (species_data caterpie1) = level_evolution 7 ''Metapod''"
  by (simp_all add: caterpie1_def eval_defs)

lemma pidgey100_fields:
  "level pidgey100 = 100" "experience pidgey100 = 0"
  by (simp_all add: pidgey100_def eval_defs)

lemma calculate_stat_values:
  "calculate_stat 45 2 = 7" "calculate_stat 30 3 = 7" "calculate_stat 30 4 = 8"
  by (simp_all add: calculate_stat_def py_int_def)

section \<open>take_damage\<close>

lemma take_damage_all_nonneg:
  "0 \<le> current_hp p \<Longrightarrow> 0 \<le> current_hp (take_damage_all p ds)"
  unfolding take_damage_all_def
  by (induction ds arbitrary: p) (simp_all add: take_damage_def)

text \<open>
  C5. For every creature and every damage amount, \<open>take_damage\<close> sets \<open>current_hp\<close> to
  \<open>max(0, current_hp - amount)\<close> and returns true exactly when the resulting HP is 0; once
  \<open>current_hp\<close> is 0, no sequence of further \<open>take_damage\<close> calls makes it negative.
\<close>

theorem take_damage_clamps_at_zero:
  "take_damage p d = (p\<lparr>current_hp := max 0 (current_hp p - d)\<rparr>, max 0 (current_hp p - d) = 0)
   \<and> (current_hp p = 0 \<longrightarrow> 0 \<le> current_hp (take_damage_all p ds))"
  using take_damage_all_nonneg [of p ds] by (simp add: take_damage_def)

theorem take_damage_clamps_at_zero_witness:
  "current_hp fainted_rattata = 0
   \<and> take_damage fainted_rattata 4 = (fainted_rattata, True)
   \<and> 0 \<le> current_hp (take_damage_all fainted_rattata [4, 0, 9])"
  using take_damage_clamps_at_zero [of fainted_rattata 4 "[4, 0, 9]"]
  by (simp add: fainted_rattata_def)

section \<open>The HP invariant\<close>

lemma level_up_hp:
  "level p < 100 \<Longrightarrow>
   max_hp (fst (level_up p)) = calculate_stat (base_hp (base_stats p)) (level p + 1) \<and>
   current_hp (fst (level_up p))
     = current_hp p + (calculate_stat (base_hp (base_stats p)) (level p + 1) - max_hp p)"
  by (simp add: level_up_def Let_def)

lemma level_up_inv:
  assumes "hp_invariant p" "stats_consistent p"
  shows "hp_invariant (fst (level_up p))"
proof (cases "level p < 100")
  case True
  have "max_hp p \<le> calculate_stat (base_hp (base_stats p)) (level p + 1)"
    using assms(2) calculate_stat_mono [of "base_hp (base_stats p)" "level p" "level p + 1"]
    by (simp add: stats_consistent_def)
  with True assms(1) show ?thesis
    by (simp add: hp_invariant_def level_up_hp)
next
  case False
  then show ?thesis using assms(1) by (simp add: level_up_def)
qed

lemma gain_experience_inv:
  assumes "hp_invariant p" "stats_consistent p"
  shows "hp_invariant (fst (gain_experience p x))"
proof -
  let ?p1 = "p\<lparr>experience := experience p + x\<rparr>"
  have "hp_invariant ?p1" "stats_consistent ?p1"
    using assms by (simp_all add: hp_invariant_def stats_consistent_def)
  then have "hp_invariant (fst (level_up ?p1))" by (rule level_up_inv)
  then show ?thesis using \<open>hp_invariant ?p1\<close>
    by (simp add: gain_experience_def Let_def)
qed

text \<open>
  C4, as stated, fails: \<open>heal\<close> has no lower clamp, so a negative amount takes the HP of a
  creature that satisfies the invariant below 0 (\<open>min(7, 3 + (-5)) = -2\<close>).
\<close>

theorem heal_negative_counterexample:
  "hp_invariant hurt_rattata \<and> \<not> hp_invariant (heal hurt_rattata (Some (- 5)))"
  by (simp add: hp_invariant_def heal_def hurt_rattata_fields)

text \<open>
  C4, amended. For every creature that satisfies \<open>0 \<le> current_hp \<le> max_hp\<close>, the invariant
  holds again after \<open>take_damage\<close> with a non-negative amount, after \<open>heal\<close> without an
  amount or with a non-negative amount, and, when \<open>max_hp\<close> is the stat derived from a
  non-negative base HP at the current level, after \<open>level_up\<close> (called directly or through
  \<open>gain_experience\<close>); the creature counts as fainted exactly when \<open>current_hp\<close> is 0.
\<close>

theorem hp_invariant_preserved:
  assumes "hp_invariant p"
  shows "(0 \<le> d \<longrightarrow> hp_invariant (fst (take_damage p d)))
       \<and> hp_invariant (heal p None)
       \<and> (0 \<le> a \<longrightarrow> hp_invariant (heal p (Some a)))
       \<and> (stats_consistent p \<longrightarrow>
            hp_invariant (fst (level_up p)) \<and> hp_invariant (fst (gain_experience p x)))
       \<and> (is_fainted p \<longleftrightarrow> current_hp p = 0)"
proof -
  have 1: "0 \<le> d \<longrightarrow> hp_invariant (fst (take_damage p d))"
    using assms by (simp add: hp_invariant_def take_damage_def)
  have 2: "hp_invariant (heal p None)"
    using assms by (simp add: hp_invariant_def heal_def)
  have 3: "0 \<le> a \<longrightarrow> hp_invariant (heal p (Some a))"
    using assms by (auto simp add: hp_invariant_def heal_def Let_def)
  have 4: "stats_consistent p \<longrightarrow>
             hp_invariant (fst (level_up p)) \<and> hp_invariant (fst (gain_experience p x))"
    using assms level_up_inv gain_experience_inv by blast
  have 5: "is_fainted p \<longleftrightarrow> current_hp p = 0"
    using assms by (auto simp add: hp_invariant_def is_fainted_def)
  from 1 2 3 4 5 show ?thesis by blast
qed

theorem hp_invariant_preserved_witness:
  "hp_invariant hurt_rattata \<and> (0::int) \<le> 2 \<and> stats_consistent hurt_rattata
   \<and> hp_invariant (fst (take_damage hurt_rattata 2))
   \<and> hp_invariant (heal hurt_rattata None)
   \<and> hp_invariant (heal hurt_rattata (Some 2))
   \<and> hp_invariant (fst (level_up hurt_rattata))
   \<and> stats_consistent (fst (level_up hurt_rattata))
   \<and> hp_invariant (fst (gain_experience hurt_rattata 2))
   \<and> \<not> is_fainted hurt_rattata"
proof -
  have h: "hp_invariant hurt_rattata"
    by (simp add: hp_invariant_def hurt_rattata_fields)
  have c: "stats_consistent hurt_rattata"
    using new_Pokemon_wf [of 3 "''Rattata''"]
    by (simp add: stats_consistent_def hurt_rattata_def)
  have n: "current_hp hurt_rattata \<noteq> 0"
    by (simp add: hurt_rattata_fields)
  show ?thesis
    using hp_invariant_preserved [OF h, of 2 2 2] h c n level_up_consistent [OF c] by simp
qed

section \<open>Status moves\<close>

text \<open>
  C9. For every attacker, defender and move with base power 0, \<open>calculate_damage\<close> returns
  exactly 0 and leaves the generator untouched (no random draw); the method itself writes
  nothing, and the \<open>take_damage(0)\<close> that both callers then perform leaves a defender with
  non-negative HP exactly as it was.
\<close>

theorem zero_power_is_noop:
  assumes "move_power m = 0"
  shows "calculate_damage a m t g = Inr (0, g)
       \<and> (0 \<le> current_hp t \<longrightarrow> fst (take_damage t 0) = t)"
  using assms by (simp add: calculate_damage_def take_damage_def)

theorem zero_power_is_noop_witness:
  "move_power growl = 0
   \<and> calculate_damage (new_Pokemon ''Bulbasaur'' 5) growl hurt_rattata fixed_rng = Inr (0, fixed_rng)
   \<and> 0 \<le> current_hp hurt_rattata
   \<and> fst (take_damage hurt_rattata 0) = hurt_rattata"
proof -
  have p: "move_power growl = 0" by (simp add: growl_def mk_move_def)
  have h: "0 \<le> current_hp hurt_rattata" by (simp add: hurt_rattata_fields)
  show ?thesis
    using zero_power_is_noop [OF p, of "new_Pokemon ''Bulbasaur'' 5" hurt_rattata fixed_rng] p h
    by simp
qed

section \<open>Experience and levels\<close>

text \<open>
  C2, as stated, fails. A level-1 Caterpie (threshold 1) that gains 100 experience rises
  by one level only, although 100 also exceeds the next threshold 4; its experience is
  reset to 0, not carried; and the call returns \<open>False\<close> although a threshold was crossed.
\<close>

theorem gain_experience_no_loop_counterexample:
  "experience caterpie1 + 100 \<ge> experience_to_next_level caterpie1
   \<and> level caterpie1 = 1
   \<and> level (fst (gain_experience caterpie1 100)) = 2
   \<and> experience_to_next_level (fst (gain_experience caterpie1 100)) = 4
   \<and> experience (fst (gain_experience caterpie1 100)) = 0
   \<and> snd (gain_experience caterpie1 100) = False"
  by (simp add: gain_experience_def level_up_def caterpie1_fields level_evolution_def
      calculate_exp_to_next_level_def py_int_def Let_def)

text \<open>
  C2, amended. For every creature and every experience amount, \<open>gain_experience\<close> adds the
  amount to the accumulated experience. If the sum reaches the threshold and the level is
  below 100, the level rises by exactly one, the experience is reset to 0, the threshold
  becomes \<open>floor(1.2 * level^2)\<close> of the new level and all derived stats are recomputed,
  with \<open>current_hp\<close> increased by exactly (new max HP - old max HP). Otherwise nothing but
  the experience changes and the call returns \<open>False\<close>.
\<close>

theorem gain_experience_single_level_up:
  "(if experience p + amount \<ge> experience_to_next_level p \<and> level p < 100
    then level (fst (gain_experience p amount)) = level p + 1
       \<and> experience (fst (gain_experience p amount)) = 0
       \<and> experience_to_next_level (fst (gain_experience p amount))
           = py_int (1.2 * real_of_int ((level p + 1) ^ 2))
       \<and> max_hp (fst (gain_experience p amount))
           = calculate_stat (base_hp (base_stats p)) (level p + 1)
       \<and> current_hp (fst (gain_experience p amount))
           = current_hp p + (max_hp (fst (gain_experience p amount)) - max_hp p)
       \<and> attack (fst (gain_experience p amount))
           = calculate_stat (base_attack (base_stats p)) (level p + 1)
       \<and> defense (fst (gain_experience p amount))
           = calculate_stat (base_defense (base_stats p)) (level p + 1)
       \<and> special_attack (fst (gain_experience p amount))
           = calculate_stat (base_special_attack (base_stats p)) (level p + 1)
       \<and> special_defense (fst (gain_experience p amount))
           = calculate_stat (base_special_defense (base_stats p)) (level p + 1)
       \<and> speed (fst (gain_experience p amount))
           = calculate_stat (base_speed (base_stats p)) (level p + 1)
    else gain_experience p amount = (p\<lparr>experience := experience p + amount\<rparr>, False))"
  by (simp add: gain_experience_def level_up_def calculate_exp_to_next_level_def Let_def)

theorem gain_experience_single_level_up_witness:
  "experience caterpie1 + 100 \<ge> experience_to_next_level caterpie1 \<and> level caterpie1 < 100
   \<and> level (fst (gain_experience caterpie1 100)) = 2
   \<and> experience (fst (gain_experience caterpie1 100)) = 0
   \<and> current_hp (fst (gain_experience caterpie1 100)) = 7
   \<and> gain_experience hurt_rattata 1 = (hurt_rattata\<lparr>experience := 1\<rparr>, False)"
proof -
  have a: "experience caterpie1 + 100 \<ge> experience_to_next_level caterpie1 \<and> level caterpie1 < 100"
    by (simp add: caterpie1_fields)
  have b: "\<not> (experience hurt_rattata + 1 \<ge> experience_to_next_level hurt_rattata
              \<and> level hurt_rattata < 100)"
    by (simp add: hurt_rattata_fields)
  show ?thesis
    using gain_experience_single_level_up [of caterpie1 100]
      gain_experience_single_level_up [of hurt_rattata 1] a b
    by (simp add: caterpie1_fields hurt_rattata_fields calculate_stat_values)
qed

text \<open>What the returned flag is: the evolution test of \<open>level_up\<close>.\<close>

lemma gain_experience_flag:
  "snd (gain_experience p amount) =
     (experience p + amount \<ge> experience_to_next_level p \<and> level p < 100 \<and>
      (\<exists>ev n. sd_evolution (species_data p) = Some ev \<and> evo_level ev = Some n \<and> n \<le> level p + 1))"
  by (auto simp add: gain_experience_def level_up_def Let_def split: option.splits)

lemma gain_experience_level_le:
  "level p \<le> 100 \<Longrightarrow> level (fst (gain_experience p x)) \<le> 100"
  by (simp add: gain_experience_def level_up_def Let_def)

lemma gain_experience_all_level_le:
  "level p \<le> 100 \<Longrightarrow> level (gain_experience_all p xs) \<le> 100"
  unfolding gain_experience_all_def
  by (induction xs arbitrary: p) (simp_all add: gain_experience_level_le)

text \<open>
  C6, as stated, fails: at level 100 the accumulated experience still grows, because the
  addition precedes the level guard.
\<close>

theorem level_100_experience_counterexample:
  "level pidgey100 = 100
   \<and> experience (fst (gain_experience pidgey100 5)) \<noteq> experience pidgey100"
  by (simp add: gain_experience_def level_up_def pidgey100_fields Let_def)

text \<open>
  C6, amended. For every creature at level 100 and every experience amount,
  \<open>gain_experience\<close> adds the amount to the accumulated experience and changes nothing
  else (level, threshold and stats stay, and it returns \<open>False\<close>); and from a level of at
  most 100 no sequence of \<open>gain_experience\<close> calls pushes the level above 100.
\<close>

theorem level_100_gain_experience:
  "(level p = 100 \<longrightarrow> gain_experience p amount = (p\<lparr>experience := experience p + amount\<rparr>, False))
   \<and> (level p \<le> 100 \<longrightarrow> level (gain_experience_all p xs) \<le> 100)"
  using gain_experience_all_level_le [of p xs]
  by (simp add: gain_experience_def level_up_def Let_def)

theorem level_100_gain_experience_witness:
  "level pidgey100 = 100 \<and> level pidgey100 \<le> 100
   \<and> gain_experience pidgey100 5 = (pidgey100\<lparr>experience := 5\<rparr>, False)
   \<and> level (gain_experience_all pidgey100 [5, 20000, 7]) \<le> 100"
  using level_100_gain_experience [of pidgey100 5 "[5, 20000, 7]"]
  by (simp add: pidgey100_fields)

section \<open>Capture\<close>

lemma remove_item_one:
  assumes "has_item bag n 1"
  shows "snd (remove_item bag n 1)"
    and "item_count (fst (remove_item bag n 1)) n = item_count bag n - 1"
    and "m \<noteq> n \<Longrightarrow> item_count (fst (remove_item bag n 1)) m = item_count bag m"
  using assms
  by (auto simp add: has_item_def item_count_def remove_item_def update_conv' delete_conv'
      split: option.splits)

lemma add_pokemon_inventory: "inventory (fst (add_pokemon t p c)) = inventory t"
  by (simp add: add_pokemon_def Let_def)

lemma catch_probability_spec: "catch_probability w ball = spec_probability w ball"
  by (simp add: catch_probability_def spec_probability_def ball_modifier_def spec_hp_factor_def
      spec_status_bonus_def Let_def)

lemma catch_pokemon_cases:
  assumes "has_item (inventory t) ball 1" and "max_hp w \<noteq> 0"
  shows "catch_pokemon t w ball g =
     (let t1 = t\<lparr>inventory := fst (remove_item (inventory t) ball 1)\<rparr>;
          g' = g\<lparr>used := Suc (used g)\<rparr>
      in if uniform_src g (used g) < spec_probability w ball
         then Inr (fst (add_pokemon t1 (heal w None) True),
                   fst (snd (add_pokemon t1 (heal w None) True)), True, g')
         else Inr (t1, w, False, g'))"
  using assms
  by (simp add: catch_pokemon_def catch_probability_spec random_random_def Let_def
      split: prod.splits)

text \<open>
  C8. When the trainer holds the capture device and the wild creature's maximum HP is not
  0, \<open>catch_pokemon\<close> makes exactly one uniform draw and succeeds exactly when that draw
  is below \<open>min(1.0, (base_catch_rate * ball_modifier * hp_factor * status_bonus) / 255)\<close>,
  with \<open>hp_factor = (3 * max_hp - 2 * current_hp) / (3 * max_hp)\<close> and the status bonus
  2.0 for sleep and freeze, 1.5 for paralyze, burn and poison, 1.0 otherwise; whatever the
  outcome, the count of that device drops by exactly one and no other count changes.
\<close>

theorem catch_pokemon_formula:
  assumes "has_item (inventory t) ball 1" and "max_hp w \<noteq> 0"
  shows "case catch_pokemon t w ball g of
           Inl e \<Rightarrow> False
         | Inr (t', w', caught, g') \<Rightarrow>
             (caught \<longleftrightarrow> uniform_src g (used g) < spec_probability w ball)
           \<and> g' = g\<lparr>used := Suc (used g)\<rparr>
           \<and> item_count (inventory t') ball = item_count (inventory t) ball - 1
           \<and> (\<forall>other. other \<noteq> ball \<longrightarrow>
                 item_count (inventory t') other = item_count (inventory t) other)"
  using remove_item_one (2,3) [OF assms(1)]
  by (simp add: catch_pokemon_cases [OF assms] Let_def add_pokemon_inventory)


lemma map_of_filter_key:
  "map_of (filter (\<lambda>(k, v). P k) xs) k = (if P k then map_of xs k else None)"
  by (induction xs) auto

lemma first_pokeball_count:
  assumes "get_items_by_type bag ty = (ball, q) # rest"
  shows "item_count bag ball = q"
proof -
  let ?P = "\<lambda>name. (case map_of get_item_database name of
                       Some d \<Rightarrow> item_type d = ty | None \<Rightarrow> False)"
  have f: "filter (\<lambda>(k, v). ?P k) (items bag) = (ball, q) # rest"
    using assms by (simp add: get_items_by_type_def)
  then have "(ball, q) \<in> set (filter (\<lambda>(k, v). ?P k) (items bag))" by simp
  then have p: "?P ball" by simp
  have "map_of (filter (\<lambda>(k, v). ?P k) (items bag)) ball = Some q"
    using f by simp
  then have "map_of (items bag) ball = Some q"
    using p map_of_filter_key [of ?P "items bag" ball] by simp
  then show ?thesis by (simp add: item_count_def)
qed

lemma calculate_catch_rate_spec:
  "max_hp w \<noteq> 0 \<Longrightarrow> calculate_catch_rate w = Inr (spec_gate w)"
  by (simp add: calculate_catch_rate_def spec_gate_def Let_def)

lemma attempt_catch_cases:
  assumes "get_items_by_type (inventory t) ''pokeball'' = (ball, q) # rest"
      and "1 \<le> q" and "max_hp w \<noteq> 0"
  shows "attempt_catch t w True nick g =
    (let r1 = uniform_src g (used g); r2 = uniform_src g (Suc (used g));
         t1 = t\<lparr>inventory := fst (remove_item (inventory t) ball 1)\<rparr>
     in if r1 < spec_gate w then
          (if r2 < spec_probability w ball then
             (let a = add_pokemon t1 (heal w None) True;
                  w2 = (if nick \<noteq> [] then (fst (snd a))\<lparr>nickname := nick\<rparr> else fst (snd a));
                  t2 = (if length (pokemon_team t) < max_team_size t
                        then (fst a)\<lparr>pokemon_team := butlast (pokemon_team (fst a)) @ [w2]\<rparr>
                        else (fst a)\<lparr>pokemon_box := butlast (pokemon_box (fst a)) @ [w2]\<rparr>)
              in Inr (t2\<lparr>stat_pokemon_caught := stat_pokemon_caught t2 + 1\<rparr>, w2,
                      g\<lparr>used := Suc (Suc (used g))\<rparr>, Gotcha))
           else Inr (t1, w, g\<lparr>used := Suc (Suc (used g))\<rparr>, SentToPC))
        else Inr (t1, w, g\<lparr>used := Suc (used g)\<rparr>, BrokeFree))"
proof -
  have h: "has_item (inventory t) ball 1"
    using first_pokeball_count [OF assms(1)] assms(2) by (simp add: has_item_def)
  show ?thesis
    by (simp add: attempt_catch_def assms(1) calculate_catch_rate_spec [OF assms(3)]
        random_random_def catch_pokemon_cases [OF h assms(3)] Let_def)
qed

lemma add_pokemon_lengths:
  "length (pokemon_team t) < max_team_size t \<Longrightarrow>
     length (pokemon_team (fst (add_pokemon t p c))) = Suc (length (pokemon_team t))
     \<and> length (pokemon_box (fst (add_pokemon t p c))) = length (pokemon_box t)"
  "\<not> length (pokemon_team t) < max_team_size t \<Longrightarrow>
     length (pokemon_box (fst (add_pokemon t p c))) = Suc (length (pokemon_box t))
     \<and> length (pokemon_team (fst (add_pokemon t p c))) = length (pokemon_team t)"
  by (simp_all add: add_pokemon_def Let_def)

lemma caught_with_iff:
  assumes "get_items_by_type (inventory t) ''pokeball'' = (ball, q) # rest"
      and "1 \<le> q" and "max_hp w \<noteq> 0"
  shows "caught_with t w nick a b \<longleftrightarrow> a < spec_gate w \<and> b < spec_probability w ball"
  by (simp add: caught_with_def attempt_catch_cases [OF assms] two_draws_def Let_def)

lemma card_both:
  assumes "finite A" "finite B"
  shows "card {(a, b). a \<in> A \<and> b \<in> B \<and> P a \<and> Q b} = card {a \<in> A. P a} * card {b \<in> B. Q b}"
proof -
  have "{(a, b). a \<in> A \<and> b \<in> B \<and> P a \<and> Q b} = {a \<in> A. P a} \<times> {b \<in> B. Q b}" by auto
  then show ?thesis by (simp add: card_cartesian_product)
qed

text \<open>
  C10. In the engine's capture flow, once the player has accepted and the first Pokeball
  entry of the inventory holds at least one ball, the creature is caught exactly when two
  successive uniform draws both succeed: the first below the engine's gate
  \<open>min(0.9, 0.3 + (1 - current_hp / max_hp) * 0.4 + max(0.1, 1 - level / 100) * 0.2)\<close>, the
  second below the probability of the trainer's catch operation. The second draw is made
  only when the first succeeds. Over any finite sets of equally weighted first and second
  draws the number of successful pairs is the product of the numbers of successful first
  and second draws. Exactly one ball is removed on every attempt, whichever draw fails.
\<close>

theorem attempt_catch_two_draws:
  assumes "get_items_by_type (inventory t) ''pokeball'' = (ball, q) # rest"
      and "1 \<le> q" and "max_hp w \<noteq> 0"
  shows "(case attempt_catch t w True nick g of
           Inl e \<Rightarrow> False
         | Inr (t', w', g', report) \<Rightarrow>
             (report = Gotcha \<longleftrightarrow>
                uniform_src g (used g) < spec_gate w
                \<and> uniform_src g (Suc (used g)) < spec_probability w ball)
           \<and> roster_size t' = roster_size t + (if report = Gotcha then 1 else 0)
           \<and> used g' = used g + (if uniform_src g (used g) < spec_gate w then 2 else 1)
           \<and> item_count (inventory t') ball = item_count (inventory t) ball - 1)
       \<and> (finite A \<and> finite B \<longrightarrow>
            card {(a, b). a \<in> A \<and> b \<in> B \<and> caught_with t w nick a b}
              = card {a \<in> A. a < spec_gate w} * card {b \<in> B. b < spec_probability w ball})"
proof -
  have h: "has_item (inventory t) ball 1"
    using first_pokeball_count [OF assms(1)] assms(2) by (simp add: has_item_def)
  let ?t1 = "t\<lparr>inventory := fst (remove_item (inventory t) ball 1)\<rparr>"
  have 1: "case attempt_catch t w True nick g of
           Inl e \<Rightarrow> False
         | Inr (t', w', g', report) \<Rightarrow>
             (report = Gotcha \<longleftrightarrow>
                uniform_src g (used g) < spec_gate w
                \<and> uniform_src g (Suc (used g)) < spec_probability w ball)
           \<and> roster_size t' = roster_size t + (if report = Gotcha then 1 else 0)
           \<and> used g' = used g + (if uniform_src g (used g) < spec_gate w then 2 else 1)
           \<and> item_count (inventory t') ball = item_count (inventory t) ball - 1"
    using remove_item_one(2) [OF h]
      add_pokemon_lengths [of ?t1 "heal w None" True]
      add_pokemon_inventory [of ?t1 "heal w None" True]
    by (simp add: attempt_catch_cases [OF assms] Let_def roster_size_def)
  have 2: "finite A \<and> finite B \<longrightarrow>
            card {(a, b). a \<in> A \<and> b \<in> B \<and> caught_with t w nick a b}
              = card {a \<in> A. a < spec_gate w} * card {b \<in> B. b < spec_probability w ball}"
    using card_both [of A B "\<lambda>a. a < spec_gate w" "\<lambda>b. b < spec_probability w ball"]
    by (simp add: caught_with_iff [OF assms])
  from 1 2 show ?thesis by blast
qed


lemma red_pokeballs:
  "get_items_by_type (inventory red) ''pokeball'' = [(''Pokeball'', 10)]"
  "item_count (inventory red) ''Pokeball'' = 10"
  "roster_size red = 1"
  by (simp_all add: red_def new_Trainer_def new_Inventory_def add_item_def get_items_by_type_def
      get_item_database_def mk_item_def item_count_def roster_size_def)

lemma rattata_capture_values:
  "max_hp hurt_rattata = 7" "spec_probability hurt_rattata ''Pokeball'' = 5 / 7"
  "max_hp fainted_rattata = 7" "spec_probability fainted_rattata ''Pokeball'' = 1"
  "spec_gate fainted_rattata = 447 / 500"
  by (simp_all add: hurt_rattata_def fainted_rattata_def spec_probability_def ball_modifier_def
      spec_hp_factor_def spec_status_bonus_def spec_gate_def get_catch_rate_def catch_rates_def
      get_item_database_def mk_item_def new_Pokemon_def get_species_data_def mk_stats_def
      calculate_stat_def py_int_def level_evolution_def Let_def)

theorem catch_pokemon_formula_witness:
  "has_item (inventory red) ''Pokeball'' 1 \<and> max_hp hurt_rattata \<noteq> 0
   \<and> (case catch_pokemon red hurt_rattata ''Pokeball'' fixed_rng of
         Inl e \<Rightarrow> False
       | Inr (t', w', caught, g') \<Rightarrow>
           caught \<and> used g' = 1 \<and> item_count (inventory t') ''Pokeball'' = 9)"
proof -
  have h: "has_item (inventory red) ''Pokeball'' 1"
    by (simp add: has_item_def red_pokeballs)
  have m: "max_hp hurt_rattata \<noteq> 0"
    by (simp add: rattata_capture_values)
  show ?thesis
    using catch_pokemon_formula [OF h m, of fixed_rng] h m
    by (auto simp add: rattata_capture_values red_pokeballs fixed_rng_def
        split: sum.splits prod.splits)
qed

theorem attempt_catch_two_draws_witness:
  "get_items_by_type (inventory red) ''pokeball'' = (''Pokeball'', 10) # []
   \<and> (1::int) \<le> 10 \<and> max_hp fainted_rattata \<noteq> 0
   \<and> (case attempt_catch red fainted_rattata True ''Ratty'' fixed_rng of
         Inl e \<Rightarrow> False
       | Inr (t', w', g', report) \<Rightarrow>
           report = Gotcha \<and> roster_size t' = 2 \<and> used g' = 2
           \<and> item_count (inventory t') ''Pokeball'' = 9)
   \<and> card {(a, b). a \<in> {1 / 4, 19 / 20} \<and> b \<in> {1 / 2, 3 / 4}
                    \<and> caught_with red fainted_rattata ''Ratty'' a b} = 2"
proof -
  have p: "get_items_by_type (inventory red) ''pokeball'' = (''Pokeball'', 10) # []"
    by (simp add: red_pokeballs)
  have q: "(1::int) \<le> 10" by simp
  have m: "max_hp fainted_rattata \<noteq> 0"
    by (simp add: rattata_capture_values)
  have a: "{a \<in> {1 / 4, 19 / 20}. a < (447 / 500 :: real)} = {1 / 4}" by auto
  have b: "{b \<in> {1 / 2, 3 / 4}. b < (1 :: real)} = {1 / 2, 3 / 4}" by auto
  have ca: "card {a \<in> {1 / 4, 19 / 20}. a < spec_gate fainted_rattata} = 1"
    by (simp only: rattata_capture_values a) simp
  have cb: "card {b \<in> {1 / 2, 3 / 4}. b < spec_probability fainted_rattata ''Pokeball''} = 2"
    by (simp only: rattata_capture_values b) simp
  note inst = attempt_catch_two_draws [OF p q m, where nick = "''Ratty''" and g = fixed_rng
        and A = "{1 / 4, 19 / 20}" and B = "{1 / 2, 3 / 4}"]
  have fin: "finite {1 / 4, 19 / 20 :: real} \<and> finite {1 / 2, 3 / 4 :: real}" by simp
  have c: "card {(a, b). a \<in> {1 / 4, 19 / 20} \<and> b \<in> {1 / 2, 3 / 4}
                    \<and> caught_with red fainted_rattata ''Ratty'' a b} = 2"
    using inst [THEN conjunct2, THEN mp, OF fin] by (simp only: ca cb)
  have d: "case attempt_catch red fainted_rattata True ''Ratty'' fixed_rng of
         Inl e \<Rightarrow> False
       | Inr (t', w', g', report) \<Rightarrow>
           report = Gotcha \<and> roster_size t' = 2 \<and> used g' = 2
           \<and> item_count (inventory t') ''Pokeball'' = 9"
    using inst [THEN conjunct1]
    by (auto simp add: rattata_capture_values red_pokeballs fixed_rng_def
        split: sum.splits prod.splits)
  from p q m c d show ?thesis by blast
qed

section \<open>Invalid selections\<close>

lemma py_index_pos: "1 \<le> k \<Longrightarrow> k \<le> int n \<Longrightarrow> py_index n (k - 1) = Some (nat (k - 1))"
  by (simp add: py_index_def)


















section \<open>Concrete battles\<close>

lemmas battle_defs =
  battle_iteration_def fight_action_def item_action_def switch_action_def run_action_def
  after_action_def award_victory_def opponent_turn_def replace_fainted_def
  player_pokemon_def set_player_def show_message_def py_index_def use_move_def
  calculate_damage_def take_damage_def is_fainted_def calculate_exp_gain_def
  gain_experience_def level_up_def get_effectiveness_message_def get_type_effectiveness_def
  get_type_effectiveness_static_def random_uniform_def random_random_def random_choice_def
  has_usable_pokemon_def

lemmas world_defs =
  red_def new_Trainer_def new_Inventory_def add_item_def fixed_rng_def

text \<open>A pass that returns ends the loop with its result.\<close>

lemma battle_loop_first_pass:
  assumes "\<not> is_fainted (player_pokemon b)" "\<not> is_fainted (opponent_pokemon b)"
      and "battle_turn b = 0"
      and "battle_iteration b (inputs 1) = Return r b'"
  shows "battle_loop b inputs = Some (r, b')"
proof -
  have b: "b\<lparr>battle_turn := 0\<rparr> = b" using assms(3) by simp
  have "battle_loop_fuel (Suc n) b inputs = Some (r, b')" for n
    using assms by simp
  from this [of 99] have "battle_loop_fuel 100 b inputs = Some (r, b')"
    by simp
  then show ?thesis by (simp add: battle_loop_def b)
qed

text \<open>
  C3. The code at the failing input: a level-5 Charmander (experience 0, threshold 30)
  uses Tackle on a wild level-3 Rattata with 1 HP. The battle ends at once with
  \<open>Victory\<close> and 9 experience is awarded, which crosses no threshold; yet the creature
  ends at level 6 with experience 0, and no level-up is shown.
\<close>

theorem victory_levels_up_again:
  "battle_loop (start_of red weak_rattata) (\<lambda>k. fight_with (Some 1))
     = Some (Victory, flow_state (battle_iteration (start_of red weak_rattata) (fight_with (Some 1))))
   \<and> level (player_pokemon (start_of red weak_rattata)) = 5
   \<and> experience_to_next_level (player_pokemon (start_of red weak_rattata)) = 30
   \<and> calculate_exp_gain (player_pokemon (start_of red weak_rattata)) weak_rattata = 9
   \<and> level (player_pokemon
        (flow_state (battle_iteration (start_of red weak_rattata) (fight_with (Some 1))))) = 6
   \<and> experience (player_pokemon
        (flow_state (battle_iteration (start_of red weak_rattata) (fight_with (Some 1))))) = 0
   \<and> shown (flow_state (battle_iteration (start_of red weak_rattata) (fight_with (Some 1))))
       = [UsedMove ''Charmander'' ''Tackle'', DealtDamage 6, FaintedMsg ''Rattata'',
          GainedExperience ''Charmander'' 9]"
proof -
  let ?b = "start_of red weak_rattata"
  let ?r = "battle_iteration ?b (fight_with (Some 1))"
  have it: "?r = Return Victory (flow_state ?r)
   \<and> level (player_pokemon ?b) = 5
   \<and> experience_to_next_level (player_pokemon ?b) = 30
   \<and> calculate_exp_gain (player_pokemon ?b) weak_rattata = 9
   \<and> level (player_pokemon (flow_state ?r)) = 6
   \<and> experience (player_pokemon (flow_state ?r)) = 0
   \<and> shown (flow_state ?r)
       = [UsedMove ''Charmander'' ''Tackle'', DealtDamage 6, FaintedMsg ''Rattata'',
          GainedExperience ''Charmander'' 9]"
    by (simp add: start_of_def fight_with_def weak_rattata_def battle_defs world_defs eval_defs
        cong: let_weak_cong)
  have g: "\<not> is_fainted (player_pokemon ?b)" "\<not> is_fainted (opponent_pokemon ?b)"
    "battle_turn ?b = 0"
    by (simp_all add: start_of_def weak_rattata_def is_fainted_def player_pokemon_def world_defs
        eval_defs)
  have "battle_loop ?b (\<lambda>k. fight_with (Some 1)) = Some (Victory, flow_state ?r)"
    using it by (intro battle_loop_first_pass g) simp
  with it show ?thesis by blast
qed

section \<open>The battle loop\<close>

text \<open>The loop body, with the local variables written out.\<close>

lemma battle_iteration_unfold:
  "battle_iteration b inp =
     (let c = (case battle_choice inp of None \<Rightarrow> 4 | Some c \<Rightarrow> c);
          b0 = b\<lparr>battle_turn := battle_turn b + 1\<rparr>
      in case (case (if c = 1 then fight_action b0 inp
                     else if c = 2 then item_action b0 inp
                     else if c = 3 then switch_action b0 inp
                     else if c = 4 then run_action b0
                     else Proceed b0) of
                 Proceed b1 \<Rightarrow> after_action b1 inp
               | other \<Rightarrow> other) of
           Raised e b1 \<Rightarrow> Raised e (show_message b1 BattleError)
         | other \<Rightarrow> other)"
  by (simp add: battle_iteration_def Let_def)

text \<open>Every pass advances the turn counter by one, however it ends.\<close>

lemma turn_simps [simp]:
  "battle_turn (set_player b p) = battle_turn b"
  "battle_turn (show_message b m) = battle_turn b"
  by (simp_all add: set_player_def show_message_def)

lemma fight_action_turn: "battle_turn (flow_state (fight_action b inp)) = battle_turn b"
  by (simp add: fight_action_def Let_def split: option.splits prod.splits sum.splits)

lemma item_action_turn: "battle_turn (flow_state (item_action b inp)) = battle_turn b"
  by (simp add: item_action_def Let_def split_beta split: option.splits)

lemma switch_action_turn: "battle_turn (flow_state (switch_action b inp)) = battle_turn b"
  by (simp add: switch_action_def Let_def split: option.splits)

lemma run_action_turn: "battle_turn (flow_state (run_action b)) = battle_turn b"
  by (simp add: run_action_def Let_def split_beta)

lemma award_victory_turn: "battle_turn (award_victory b) = battle_turn b"
  by (simp add: award_victory_def Let_def split_beta)

lemma opponent_turn_turn: "battle_turn (flow_state (opponent_turn b)) = battle_turn b"
  by (simp add: opponent_turn_def Let_def split_beta split: sum.splits)

lemma replace_fainted_turn: "battle_turn (flow_state (replace_fainted b inp)) = battle_turn b"
  by (simp add: replace_fainted_def Let_def split: option.splits)

lemma after_action_turn: "battle_turn (flow_state (after_action b inp)) = battle_turn b"
proof (cases "opponent_turn b")
  case (Proceed b1)
  then have "battle_turn b1 = battle_turn b" using opponent_turn_turn [of b] by simp
  then show ?thesis using Proceed
    by (simp add: after_action_def award_victory_turn replace_fainted_turn)
qed (use opponent_turn_turn [of b] in \<open>simp_all add: after_action_def award_victory_turn\<close>)

lemma battle_iteration_turn:
  "battle_turn (flow_state (battle_iteration b inp)) = battle_turn b + 1"
proof -
  let ?b0 = "b\<lparr>battle_turn := battle_turn b + 1\<rparr>"
  let ?c = "case battle_choice inp of None \<Rightarrow> 4 | Some c \<Rightarrow> c"
  let ?acted = "if ?c = 1 then fight_action ?b0 inp
                  else if ?c = 2 then item_action ?b0 inp
                  else if ?c = 3 then switch_action ?b0 inp
                  else if ?c = 4 then run_action ?b0
                  else Proceed ?b0"
  have a: "battle_turn (flow_state ?acted) = battle_turn b + 1"
    using fight_action_turn [of ?b0 inp] item_action_turn [of ?b0 inp]
      switch_action_turn [of ?b0 inp] run_action_turn [of ?b0] by simp
  have it: "battle_iteration b inp =
          (case (case ?acted of Proceed b1 \<Rightarrow> after_action b1 inp | other \<Rightarrow> other) of
             Raised e b1 \<Rightarrow> Raised e (show_message b1 BattleError)
           | other \<Rightarrow> other)"
    unfolding battle_iteration_unfold [of b] Let_def ..
  show ?thesis
  proof (cases ?acted)
    case (Proceed b1)
    then have "battle_turn b1 = battle_turn b + 1" using a by simp
    then have "battle_turn (flow_state (after_action b1 inp)) = battle_turn b + 1"
      by (simp add: after_action_turn)
    then show ?thesis unfolding it Proceed
      by (cases "after_action b1 inp") simp_all
  next
    case (Retry b1)
    then show ?thesis using a unfolding it by simp
  next
    case (Raised e b1)
    then show ?thesis using a unfolding it by simp
  next
    case (Return r b1)
    then show ?thesis using a unfolding it by simp
  qed
qed

lemma battle_loop_fuel_returns:
  "100 - battle_turn b \<le> int fuel \<Longrightarrow> battle_loop_fuel fuel b inputs \<noteq> None"
proof (induction fuel arbitrary: b)
  case 0
  then show ?case by simp
next
  case (Suc n)
  let ?r = "battle_iteration b (inputs (battle_turn b + 1))"
  have "100 - battle_turn (flow_state ?r) \<le> int n"
    using Suc.prems by (simp add: battle_iteration_turn)
  then have "battle_loop_fuel n (flow_state ?r) inputs \<noteq> None" by (rule Suc.IH)
  then show ?case by (cases ?r) simp_all
qed

text \<open>The battle loop always returns.\<close>

lemma battle_loop_returns: "\<exists>r. battle_loop b inputs = Some r"
  using battle_loop_fuel_returns [of "b\<lparr>battle_turn := 0\<rparr>" 100 inputs]
  by (auto simp add: battle_loop_def)




section \<open>Cancelled menus\<close>




section \<open>No accuracy check\<close>

lemma mwa_fields [simp]:
  "move_name (move_with_accuracy x m) = move_name m"
  "move_type (move_with_accuracy x m) = move_type m"
  "move_power (move_with_accuracy x m) = move_power m"
  "move_pp (move_with_accuracy x m) = move_pp m"
  by (simp_all add: move_with_accuracy_def)

lemma wa_fields [simp]:
  "species (with_accuracy x p) = species p"
  "level (with_accuracy x p) = level p"
  "nickname (with_accuracy x p) = nickname p"
  "experience (with_accuracy x p) = experience p"
  "experience_to_next_level (with_accuracy x p) = experience_to_next_level p"
  "types (with_accuracy x p) = types p"
  "max_hp (with_accuracy x p) = max_hp p"
  "current_hp (with_accuracy x p) = current_hp p"
  "attack (with_accuracy x p) = attack p"
  "defense (with_accuracy x p) = defense p"
  "special_attack (with_accuracy x p) = special_attack p"
  "special_defense (with_accuracy x p) = special_defense p"
  "moves (with_accuracy x p) = map (move_with_accuracy x) (moves p)"
  by (simp_all add: with_accuracy_def)

lemma wa_is_fainted [simp]: "is_fainted (with_accuracy x p) = is_fainted p"
  by (simp add: is_fainted_def)

lemma wa_use_move:
  "use_move (move_with_accuracy x m) = (move_with_accuracy x (fst (use_move m)), snd (use_move m))"
  by (simp add: use_move_def move_with_accuracy_def)

lemma wa_calculate_damage [simp]:
  "calculate_damage (with_accuracy x a) (move_with_accuracy x m) (with_accuracy x t) g
     = calculate_damage a m t g"
  by (simp add: calculate_damage_def Let_def)

lemma wa_take_damage:
  "take_damage (with_accuracy x p) d = (with_accuracy x (fst (take_damage p d)), snd (take_damage p d))"
  by (simp add: take_damage_def with_accuracy_def)

lemma wa_level_up:
  "level_up (with_accuracy x p) = (with_accuracy x (fst (level_up p)), snd (level_up p))"
  by (simp add: level_up_def with_accuracy_def calculate_exp_to_next_level_def Let_def
      split: option.splits)

lemma wa_gain_experience:
  "gain_experience (with_accuracy x p) e
     = (with_accuracy x (fst (gain_experience p e)), snd (gain_experience p e))"
proof -
  have "(with_accuracy x p)\<lparr>experience := experience p + e\<rparr>
          = with_accuracy x (p\<lparr>experience := experience p + e\<rparr>)"
    by (simp add: with_accuracy_def)
  then show ?thesis
    by (simp add: gain_experience_def Let_def wa_level_up)
qed

lemma wa_heal: "heal (with_accuracy x p) a = with_accuracy x (heal p a)"
  by (cases a) (simp_all add: heal_def with_accuracy_def Let_def)

lemma wa_calculate_exp_gain [simp]:
  "calculate_exp_gain (with_accuracy x p) (with_accuracy x q) = calculate_exp_gain p q"
  by (simp add: calculate_exp_gain_def)

lemma bwa_fields [simp]:
  "active (battle_with_accuracy x b) = active b"
  "is_wild (battle_with_accuracy x b) = is_wild b"
  "battle_turn (battle_with_accuracy x b) = battle_turn b"
  "gen (battle_with_accuracy x b) = gen b"
  "shown (battle_with_accuracy x b) = shown b"
  "opponent_pokemon (battle_with_accuracy x b) = with_accuracy x (opponent_pokemon b)"
  "trainer (battle_with_accuracy x b) = trainer_with_accuracy x (trainer b)"
  by (simp_all add: battle_with_accuracy_def)

lemma twa_fields [simp]:
  "pokemon_team (trainer_with_accuracy x t) = map (with_accuracy x) (pokemon_team t)"
  "inventory (trainer_with_accuracy x t) = inventory t"
  by (simp_all add: trainer_with_accuracy_def)

lemma bwa_player:
  "active b < length (pokemon_team (trainer b)) \<Longrightarrow>
   player_pokemon (battle_with_accuracy x b) = with_accuracy x (player_pokemon b)"
  by (simp add: player_pokemon_def)

lemma bwa_set_player:
  "set_player (battle_with_accuracy x b) (with_accuracy x p) = battle_with_accuracy x (set_player b p)"
  by (simp add: set_player_def battle_with_accuracy_def trainer_with_accuracy_def map_update)

lemma bwa_show_message:
  "show_message (battle_with_accuracy x b) m = battle_with_accuracy x (show_message b m)"
  by (simp add: show_message_def battle_with_accuracy_def)

lemma bwa_updates:
  "(battle_with_accuracy x b)\<lparr>gen := g\<rparr> = battle_with_accuracy x (b\<lparr>gen := g\<rparr>)"
  "(battle_with_accuracy x b)\<lparr>active := i\<rparr> = battle_with_accuracy x (b\<lparr>active := i\<rparr>)"
  "(battle_with_accuracy x b)\<lparr>battle_turn := n\<rparr> = battle_with_accuracy x (b\<lparr>battle_turn := n\<rparr>)"
  "(battle_with_accuracy x b)\<lparr>opponent_pokemon := with_accuracy x p\<rparr>
     = battle_with_accuracy x (b\<lparr>opponent_pokemon := p\<rparr>)"
  by (simp_all add: battle_with_accuracy_def)

lemma set_player_facts [simp]:
  "active (set_player b p) = active b"
  "gen (set_player b p) = gen b"
  "shown (set_player b p) = shown b"
  "opponent_pokemon (set_player b p) = opponent_pokemon b"
  "length (pokemon_team (trainer (set_player b p))) = length (pokemon_team (trainer b))"
  "active b < length (pokemon_team (trainer b)) \<Longrightarrow> player_pokemon (set_player b p) = p"
  by (simp_all add: set_player_def player_pokemon_def)

lemma py_index_bound: "py_index n i = Some k \<Longrightarrow> k < n"
  by (auto simp add: py_index_def split: if_splits)

lemma wa_moves_update:
  "(with_accuracy x p)\<lparr>moves := (map (move_with_accuracy x) (moves p))[i := move_with_accuracy x m]\<rparr>
     = with_accuracy x (p\<lparr>moves := (moves p)[i := m]\<rparr>)"
  by (simp add: with_accuracy_def map_update)

lemma fight_action_accuracy:
  assumes "active b < length (pokemon_team (trainer b))"
  shows "fight_action (battle_with_accuracy x b) inp
           = map_flow (battle_with_accuracy x) (fight_action b inp)"
proof (cases "move_choice inp")
  case None
  then show ?thesis by (simp add: fight_action_def)
next
  case (Some mc)
  let ?p = "player_pokemon b"
  show ?thesis
  proof (cases "mc \<noteq> 0 \<and> mc \<le> int (length (moves ?p))")
    case False
    then show ?thesis using Some assms by (auto simp add: fight_action_def bwa_player)
  next
    case True
    show ?thesis
    proof (cases "py_index (length (moves ?p)) (mc - 1)")
      case None
      then show ?thesis using Some True assms by (simp add: fight_action_def bwa_player)
    next
      case (Some i)
      then have i: "i < length (moves ?p)" by (rule py_index_bound)
      obtain m ok where um: "use_move (moves ?p ! i) = (m, ok)" by (cases "use_move (moves ?p ! i)")
      show ?thesis
      proof (cases ok)
        case False
        then show ?thesis
          using \<open>move_choice inp = Some mc\<close> True Some i um assms
          by (simp add: fight_action_def bwa_player wa_use_move bwa_show_message)
      next
        case True
        note ok = True
        let ?b1 = "set_player b (?p\<lparr>moves := (moves ?p)[i := m]\<rparr>)"
        have b1: "set_player (battle_with_accuracy x b)
                    ((with_accuracy x ?p)\<lparr>moves := (map (move_with_accuracy x) (moves ?p))
                                                     [i := move_with_accuracy x m]\<rparr>)
                  = battle_with_accuracy x ?b1"
          by (simp only: wa_moves_update bwa_set_player)
        have a1: "active ?b1 < length (pokemon_team (trainer ?b1))" using assms by simp
        show ?thesis
        proof (cases "calculate_damage (player_pokemon ?b1) m (opponent_pokemon ?b1) (gen ?b1)")
          case (Inl e)
          then show ?thesis
            using \<open>move_choice inp = Some mc\<close> \<open>mc \<noteq> 0 \<and> mc \<le> int (length (moves ?p))\<close>
              Some i um ok assms a1
            by (simp add: fight_action_def bwa_player wa_use_move b1 Let_def cong: let_weak_cong)
        next
          case (Inr r)
          obtain damage g1 where r: "r = (damage, g1)" by (cases r)
          show ?thesis
            using \<open>move_choice inp = Some mc\<close> \<open>mc \<noteq> 0 \<and> mc \<le> int (length (moves ?p))\<close>
              Some i um ok assms a1 Inr r
            by (simp add: fight_action_def bwa_player wa_use_move b1 bwa_updates wa_take_damage
                bwa_show_message Let_def cong: let_weak_cong)
        qed
      qed
    qed
  qed
qed


lemma twa_more [simp]:
  "stat_items_used (trainer_with_accuracy x t) = stat_items_used t"
  "length (pokemon_team (trainer_with_accuracy x t)) = length (pokemon_team t)"
  by (simp_all add: trainer_with_accuracy_def)

lemma twa_updates:
  "(trainer_with_accuracy x t)\<lparr>inventory := i\<rparr> = trainer_with_accuracy x (t\<lparr>inventory := i\<rparr>)"
  "(trainer_with_accuracy x t)\<lparr>stat_items_used := n\<rparr>
     = trainer_with_accuracy x (t\<lparr>stat_items_used := n\<rparr>)"
  by (simp_all add: trainer_with_accuracy_def)

lemma wa_revive:
  "(with_accuracy x p)\<lparr>current_hp := h\<rparr> = with_accuracy x (p\<lparr>current_hp := h\<rparr>)"
  by (simp add: with_accuracy_def)

lemma wa_use_item:
  "use_item (trainer_with_accuracy x t) ic (with_accuracy x p)
     = (trainer_with_accuracy x (fst (use_item t ic p)),
        with_accuracy x (fst (snd (use_item t ic p))),
        snd (snd (use_item t ic p)))"
proof (cases "has_item (inventory t) ic 1")
  case False
  then show ?thesis by (simp add: use_item_def)
next
  case True
  show ?thesis
  proof (cases "map_of get_item_database ic")
    case None
    then show ?thesis using True by (simp add: use_item_def)
  next
    case (Some d)
    show ?thesis
    proof (cases "item_heal_amount d")
      case None
      then show ?thesis using True Some
        by (simp add: use_item_def Let_def twa_updates wa_revive wa_gain_experience)
    next
      case (Some h)
      then show ?thesis using True \<open>map_of get_item_database ic = Some d\<close>
        by (simp add: use_item_def Let_def twa_updates wa_heal wa_gain_experience)
    qed
  qed
qed

lemma wa_has_usable [simp]:
  "has_usable_pokemon (trainer_with_accuracy x t) = has_usable_pokemon t"
  by (simp add: has_usable_pokemon_def list_ex_iff)

lemma bwa_trainer_update:
  "(battle_with_accuracy x b)\<lparr>trainer := trainer_with_accuracy x t\<rparr>
     = battle_with_accuracy x (b\<lparr>trainer := t\<rparr>)"
  by (simp add: battle_with_accuracy_def)

lemma wf_simps [simp]:
  "wf_battle (set_player b p) = wf_battle b"
  "wf_battle (show_message b m) = wf_battle b"
  "wf_battle (b\<lparr>gen := g\<rparr>) = wf_battle b"
  "wf_battle (b\<lparr>battle_turn := n\<rparr>) = wf_battle b"
  "wf_battle (b\<lparr>opponent_pokemon := q\<rparr>) = wf_battle b"
  "wf_battle (b\<lparr>active := i\<rparr>) = (i < length (pokemon_team (trainer b)))"
  by (simp_all add: wf_battle_def set_player_def show_message_def)

lemma show_message_fields [simp]:
  "active (show_message b m) = active b"
  "trainer (show_message b m) = trainer b"
  "opponent_pokemon (show_message b m) = opponent_pokemon b"
  "gen (show_message b m) = gen b"
  "player_pokemon (show_message b m) = player_pokemon b"
  by (simp_all add: show_message_def player_pokemon_def)

lemma player_pokemon_updates [simp]:
  "player_pokemon (b\<lparr>gen := g\<rparr>) = player_pokemon b"
  "player_pokemon (b\<lparr>opponent_pokemon := q\<rparr>) = player_pokemon b"
  "player_pokemon (b\<lparr>battle_turn := n\<rparr>) = player_pokemon b"
  by (simp_all add: player_pokemon_def)

lemma fight_action_wf:
  "wf_battle b \<Longrightarrow> wf_battle (flow_state (fight_action b inp))"
  by (simp add: fight_action_def Let_def split: option.splits prod.splits sum.splits)

lemma use_item_team [simp]: "pokemon_team (fst (use_item t ic p)) = pokemon_team t"
  by (simp add: use_item_def Let_def split: option.splits)

lemma item_action_accuracy:
  assumes "wf_battle b"
  shows "item_action (battle_with_accuracy x b) inp
           = map_flow (battle_with_accuracy x) (item_action b inp)"
  using assms
  by (simp add: item_action_def Let_def wf_battle_def bwa_player wa_use_item split_beta
      bwa_trainer_update bwa_set_player bwa_show_message split: option.splits)

lemma item_action_wf:
  "wf_battle b \<Longrightarrow> wf_battle (flow_state (item_action b inp))"
  by (simp add: item_action_def Let_def split_beta wf_battle_def set_player_def show_message_def
      split: option.splits)

lemma switch_action_accuracy:
  assumes "wf_battle b"
  shows "switch_action (battle_with_accuracy x b) inp
           = map_flow (battle_with_accuracy x) (switch_action b inp)"
proof (cases "pokemon_choice inp")
  case None
  then show ?thesis by (simp add: switch_action_def Let_def bwa_show_message)
next
  case (Some pc)
  show ?thesis
  proof (cases "py_index (length (pokemon_team (trainer b))) (pc - 1)")
    case None
    then show ?thesis using Some by (simp add: switch_action_def Let_def bwa_show_message)
  next
    case (Some i)
    then have "i < length (pokemon_team (trainer b))" by (rule py_index_bound)
    then show ?thesis using Some \<open>pokemon_choice inp = Some pc\<close> assms
      by (simp add: switch_action_def Let_def bwa_show_message bwa_player wf_battle_def
          bwa_updates)
  qed
qed

lemma switch_action_wf:
  "wf_battle b \<Longrightarrow> wf_battle (flow_state (switch_action b inp))"
  by (auto simp add: switch_action_def Let_def dest: py_index_bound split: option.splits)

lemma run_action_accuracy:
  "run_action (battle_with_accuracy x b) = map_flow (battle_with_accuracy x) (run_action b)"
  by (simp add: run_action_def Let_def split_beta bwa_show_message bwa_updates)

lemma run_action_wf:
  "wf_battle b \<Longrightarrow> wf_battle (flow_state (run_action b))"
  by (simp add: run_action_def Let_def split_beta)


lemma award_victory_accuracy:
  assumes "wf_battle b"
  shows "award_victory (battle_with_accuracy x b) = battle_with_accuracy x (award_victory b)"
  using assms
  by (simp add: award_victory_def Let_def split_beta wf_battle_def bwa_player bwa_show_message
      wa_gain_experience wa_level_up bwa_set_player)

lemma random_choice_bound: "0 < n \<Longrightarrow> fst (random_choice n g) < n"
  by (simp add: random_choice_def)

lemma opponent_turn_accuracy:
  assumes "wf_battle b"
  shows "opponent_turn (battle_with_accuracy x b)
           = map_flow (battle_with_accuracy x) (opponent_turn b)"
proof (cases "moves (opponent_pokemon b) = []")
  case True
  then show ?thesis by (simp add: opponent_turn_def)
next
  case False
  let ?n = "length (moves (opponent_pokemon b))"
  let ?k = "fst (random_choice ?n (gen b))"
  let ?g1 = "snd (random_choice ?n (gen b))"
  let ?m = "moves (opponent_pokemon b) ! ?k"
  have k: "?k < ?n" using False by (simp add: random_choice_bound)
  show ?thesis
  proof (cases "calculate_damage (opponent_pokemon b) ?m (player_pokemon b) ?g1")
    case (Inl e)
    then show ?thesis using False k assms
      by (simp add: opponent_turn_def Let_def split_beta bwa_player wf_battle_def bwa_updates)
  next
    case (Inr r)
    obtain damage g2 where r: "r = (damage, g2)" by (cases r)
    show ?thesis using False k assms Inr r
      by (simp add: opponent_turn_def Let_def split_beta bwa_player wf_battle_def bwa_updates
          wa_take_damage bwa_set_player bwa_show_message)
  qed
qed

lemma opponent_turn_wf:
  "wf_battle b \<Longrightarrow> wf_battle (flow_state (opponent_turn b))"
  by (simp add: opponent_turn_def Let_def split_beta split: sum.splits)

lemma replace_fainted_accuracy:
  assumes "wf_battle b"
  shows "replace_fainted (battle_with_accuracy x b) inp
           = map_flow (battle_with_accuracy x) (replace_fainted b inp)"
proof (cases "replacement_choice inp")
  case None
  then show ?thesis using assms
    by (simp add: replace_fainted_def Let_def bwa_show_message bwa_player wf_battle_def)
next
  case (Some pc)
  show ?thesis
  proof (cases "py_index (length (pokemon_team (trainer b))) (pc - 1)")
    case None
    then show ?thesis using Some assms
      by (simp add: replace_fainted_def Let_def bwa_show_message bwa_player wf_battle_def)
  next
    case (Some i)
    then have "i < length (pokemon_team (trainer b))" by (rule py_index_bound)
    then show ?thesis using Some \<open>replacement_choice inp = Some pc\<close> assms
      by (simp add: replace_fainted_def Let_def bwa_show_message bwa_player wf_battle_def
          bwa_updates)
  qed
qed

lemma after_action_accuracy:
  assumes "wf_battle b"
  shows "after_action (battle_with_accuracy x b) inp
           = map_flow (battle_with_accuracy x) (after_action b inp)"
proof (cases "is_fainted (opponent_pokemon b)")
  case True
  then show ?thesis using assms by (simp add: after_action_def award_victory_accuracy)
next
  case False
  show ?thesis
  proof (cases "opponent_turn b")
    case (Proceed b1)
    then have "wf_battle b1" using opponent_turn_wf [OF assms] by simp
    then show ?thesis using False Proceed assms
      by (simp add: after_action_def opponent_turn_accuracy replace_fainted_accuracy)
  qed (use False assms in \<open>simp_all add: after_action_def opponent_turn_accuracy\<close>)
qed

lemma battle_iteration_accuracy:
  assumes "wf_battle b"
  shows "battle_iteration (battle_with_accuracy x b) inp
           = map_flow (battle_with_accuracy x) (battle_iteration b inp)"
proof -
  let ?b0 = "b\<lparr>battle_turn := battle_turn b + 1\<rparr>"
  let ?c = "case battle_choice inp of None \<Rightarrow> 4 | Some c \<Rightarrow> c"
  let ?acted = "\<lambda>s. if ?c = 1 then fight_action s inp
                  else if ?c = 2 then item_action s inp
                  else if ?c = 3 then switch_action s inp
                  else if ?c = 4 then run_action s
                  else Proceed s"
  have w0: "wf_battle ?b0" using assms by simp
  then have a0: "active ?b0 < length (pokemon_team (trainer ?b0))" by (simp add: wf_battle_def)
  have acted: "?acted (battle_with_accuracy x ?b0) = map_flow (battle_with_accuracy x) (?acted ?b0)"
    using w0 fight_action_accuracy [OF a0] item_action_accuracy switch_action_accuracy
      run_action_accuracy by simp
  have wa: "wf_battle (flow_state (?acted ?b0))"
    using w0 fight_action_wf item_action_wf switch_action_wf run_action_wf by simp
  have l: "(battle_with_accuracy x b)\<lparr>battle_turn := battle_turn (battle_with_accuracy x b) + 1\<rparr>
             = battle_with_accuracy x ?b0"
    by (simp add: bwa_updates)
  have lhs: "battle_iteration (battle_with_accuracy x b) inp =
          (case (case map_flow (battle_with_accuracy x) (?acted ?b0) of
                   Proceed b1 \<Rightarrow> after_action b1 inp | other \<Rightarrow> other) of
             Raised e b1 \<Rightarrow> Raised e (show_message b1 BattleError)
           | other \<Rightarrow> other)"
    unfolding battle_iteration_unfold [of "battle_with_accuracy x b"] Let_def l acted ..
  have rhs: "battle_iteration b inp =
          (case (case ?acted ?b0 of Proceed b1 \<Rightarrow> after_action b1 inp | other \<Rightarrow> other) of
             Raised e b1 \<Rightarrow> Raised e (show_message b1 BattleError)
           | other \<Rightarrow> other)"
    unfolding battle_iteration_unfold [of b] Let_def ..
  show ?thesis
  proof (cases "?acted ?b0")
    case (Proceed b1)
    then have w1: "wf_battle b1" using wa by simp
    show ?thesis unfolding lhs rhs Proceed
      by (cases "after_action b1 inp")
         (simp_all add: after_action_accuracy [OF w1] bwa_show_message)
  next
    case (Retry b1)
    show ?thesis unfolding lhs rhs Retry by simp
  next
    case (Raised e b1)
    show ?thesis unfolding lhs rhs Raised by (simp add: bwa_show_message)
  next
    case (Return r b1)
    show ?thesis unfolding lhs rhs Return by simp
  qed
qed


lemma calculate_damage_reads:
  "calculate_damage (a\<lparr>moves := ms\<rparr>) (m\<lparr>move_pp := k\<rparr>) t g = calculate_damage a m t g"
  by (simp add: calculate_damage_def Let_def)

lemma calculate_damage_draws:
  assumes "calculate_damage a m t g = Inr (d, g')"
  shows "g' = (if move_power m = 0 then g else g\<lparr>used := Suc (used g)\<rparr>)"
  using assms
  by (auto simp add: calculate_damage_def Let_def random_uniform_def random_random_def
      split: if_splits)

lemma fight_action_hit:
  assumes w: "wf_battle b"
      and mc: "move_choice inp = Some mc" "1 \<le> mc" "mc \<le> int (length (moves (player_pokemon b)))"
      and pp: "0 < move_pp (moves (player_pokemon b) ! nat (mc - 1))"
      and cd: "calculate_damage (player_pokemon b) (moves (player_pokemon b) ! nat (mc - 1))
                 (opponent_pokemon b) (gen b) = Inr (damage, g')"
  shows "fight_action b inp = Proceed (flow_state (fight_action b inp))"
    and "opponent_pokemon (flow_state (fight_action b inp))
           = fst (take_damage (opponent_pokemon b) damage)"
    and "gen (flow_state (fight_action b inp)) = g'"
    and "last (shown (flow_state (fight_action b inp))) = AttackMissed \<longleftrightarrow> damage \<le> 0"
proof -
  let ?p = "player_pokemon b"
  let ?i = "nat (mc - 1)"
  let ?m = "(moves ?p ! ?i)\<lparr>move_pp := move_pp (moves ?p ! ?i) - 1\<rparr>"
  let ?b1 = "set_player b (?p\<lparr>moves := (moves ?p)[?i := ?m]\<rparr>)"
  have a: "active b < length (pokemon_team (trainer b))" using w by (simp add: wf_battle_def)
  have um: "use_move (moves ?p ! ?i) = (?m, True)" using pp by (simp add: use_move_def)
  have cd1: "calculate_damage (player_pokemon ?b1) ?m (opponent_pokemon ?b1) (gen ?b1)
               = Inr (damage, g')"
    using a cd by (simp add: calculate_damage_reads)
  have f: "fight_action b inp =
     Proceed (let b4 = show_message
                         (?b1\<lparr>gen := g', opponent_pokemon :=
                                  fst (take_damage (opponent_pokemon b) damage)\<rparr>)
                         (UsedMove (nickname ?p) (move_name ?m));
                  effectiveness = get_effectiveness_message (move_type ?m)
                                    (types (fst (take_damage (opponent_pokemon b) damage)))
              in if damage > 0 then
                   (if effectiveness \<noteq> []
                    then show_message b4 (DealtDamageWith damage effectiveness)
                    else show_message b4 (DealtDamage damage))
                 else show_message b4 AttackMissed)"
    using mc um cd1 a
    by (simp add: fight_action_def py_index_pos Let_def)
  show "fight_action b inp = Proceed (flow_state (fight_action b inp))"
    by (simp add: f)
  show "opponent_pokemon (flow_state (fight_action b inp))
           = fst (take_damage (opponent_pokemon b) damage)"
    by (simp add: f Let_def)
  show "gen (flow_state (fight_action b inp)) = g'"
    by (simp add: f Let_def)
  show "last (shown (flow_state (fight_action b inp))) = AttackMissed \<longleftrightarrow> damage \<le> 0"
    by (auto simp add: f Let_def show_message_def)
qed

lemma opponent_turn_hit:
  assumes w: "wf_battle b"
      and ne: "moves (opponent_pokemon b) \<noteq> []"
      and cd: "calculate_damage (opponent_pokemon b)
                 (moves (opponent_pokemon b)
                    ! (choice_src (gen b) (used (gen b)) mod length (moves (opponent_pokemon b))))
                 (player_pokemon b) ((gen b)\<lparr>used := Suc (used (gen b))\<rparr>) = Inr (damage, g')"
  shows "opponent_turn b = Proceed (flow_state (opponent_turn b))"
    and "player_pokemon (flow_state (opponent_turn b)) = fst (take_damage (player_pokemon b) damage)"
    and "gen (flow_state (opponent_turn b)) = g'"
    and "last (shown (flow_state (opponent_turn b))) = AttackMissed \<longleftrightarrow> damage \<le> 0"
proof -
  have a: "active b < length (pokemon_team (trainer b))" using w by (simp add: wf_battle_def)
  let ?m = "moves (opponent_pokemon b)
              ! (choice_src (gen b) (used (gen b)) mod length (moves (opponent_pokemon b)))"
  have f: "opponent_turn b =
     Proceed (let b4 = show_message
                         (set_player (b\<lparr>gen := g'\<rparr>) (fst (take_damage (player_pokemon b) damage)))
                         (UsedMove (species (opponent_pokemon b)) (move_name ?m))
              in if damage > 0 then
                   (if types (player_pokemon b4) \<noteq> [] then
                      show_message b4
                        (DealtDamageWith damage
                           (get_effectiveness_message (move_type ?m) (types (player_pokemon b4))))
                    else show_message b4 (DealtDamage damage))
                 else show_message b4 AttackMissed)"
    using ne cd by (simp add: opponent_turn_def random_choice_def Let_def)
  show "opponent_turn b = Proceed (flow_state (opponent_turn b))"
    by (simp add: f)
  show "player_pokemon (flow_state (opponent_turn b)) = fst (take_damage (player_pokemon b) damage)"
    using a by (simp add: f Let_def wf_battle_def)
  show "gen (flow_state (opponent_turn b)) = g'"
    by (simp add: f Let_def)
  show "last (shown (flow_state (opponent_turn b))) = AttackMissed \<longleftrightarrow> damage \<le> 0"
    by (auto simp add: f Let_def show_message_def)
qed

text \<open>
  C1, as stated, fails for the player's side: a Tackle whose accuracy is 0 can never pass a
  draw below \<open>accuracy / 100\<close>, yet the Fight action takes the opponent from 3 HP to 0
  and reports 6 damage, not a miss.
\<close>

theorem accuracy_zero_hits_counterexample:
  "move_accuracy (moves (player_pokemon (start_of sure_miss hurt_rattata)) ! 0) = 0
   \<and> fight_action (start_of sure_miss hurt_rattata) (fight_with (Some 1))
       = Proceed (flow_state (fight_action (start_of sure_miss hurt_rattata) (fight_with (Some 1))))
   \<and> current_hp (opponent_pokemon (start_of sure_miss hurt_rattata)) = 3
   \<and> current_hp (opponent_pokemon
        (flow_state (fight_action (start_of sure_miss hurt_rattata) (fight_with (Some 1))))) = 0
   \<and> shown (flow_state (fight_action (start_of sure_miss hurt_rattata) (fight_with (Some 1))))
       = [UsedMove ''Charmander'' ''Tackle'', DealtDamage 6]"
  by (simp add: start_of_def fight_with_def sure_miss_def hurt_rattata_def battle_defs world_defs
      eval_defs cong: let_weak_cong)

text \<open>
  C1, amended. In the battle loop no accuracy check is applied on either side. The result
  of a pass through the loop body does not depend on the accuracy of any move: replacing
  every accuracy by any value changes nothing but those accuracies. For a player Fight
  action with a listed move that has PP left, the damage that \<open>calculate_damage\<close> returns is
  applied to the opponent as it is, the only random draw is the variance draw of
  \<open>calculate_damage\<close> (none when the power is 0), and "The attack missed!" is shown
  exactly when that damage is not positive. On the opponent's turn the damage of the
  randomly chosen move is applied to the player's creature in the same way.
\<close>

theorem no_accuracy_check:
  assumes "wf_battle b"
  shows "battle_iteration (battle_with_accuracy x b) inp
           = map_flow (battle_with_accuracy x) (battle_iteration b inp)
       \<and> (move_choice inp = Some mc \<and> 1 \<le> mc
            \<and> mc \<le> int (length (moves (player_pokemon b)))
            \<and> 0 < move_pp (moves (player_pokemon b) ! nat (mc - 1))
            \<and> calculate_damage (player_pokemon b) (moves (player_pokemon b) ! nat (mc - 1))
                  (opponent_pokemon b) (gen b) = Inr (damage, g')
          \<longrightarrow> fight_action b inp = Proceed (flow_state (fight_action b inp))
            \<and> opponent_pokemon (flow_state (fight_action b inp))
                  = fst (take_damage (opponent_pokemon b) damage)
            \<and> gen (flow_state (fight_action b inp)) = g'
            \<and> g' = (if move_power (moves (player_pokemon b) ! nat (mc - 1)) = 0 then gen b
                      else (gen b)\<lparr>used := Suc (used (gen b))\<rparr>)
            \<and> (last (shown (flow_state (fight_action b inp))) = AttackMissed
                   \<longleftrightarrow> damage \<le> 0))
       \<and> (moves (opponent_pokemon b) \<noteq> []
            \<and> calculate_damage (opponent_pokemon b)
                  (moves (opponent_pokemon b)
                     ! (choice_src (gen b) (used (gen b)) mod length (moves (opponent_pokemon b))))
                  (player_pokemon b) ((gen b)\<lparr>used := Suc (used (gen b))\<rparr>)
                = Inr (odamage, og')
          \<longrightarrow> opponent_turn b = Proceed (flow_state (opponent_turn b))
            \<and> player_pokemon (flow_state (opponent_turn b))
                  = fst (take_damage (player_pokemon b) odamage)
            \<and> gen (flow_state (opponent_turn b)) = og'
            \<and> (last (shown (flow_state (opponent_turn b))) = AttackMissed
                   \<longleftrightarrow> odamage \<le> 0))"
proof (intro conjI impI)
  show "battle_iteration (battle_with_accuracy x b) inp
           = map_flow (battle_with_accuracy x) (battle_iteration b inp)"
    using assms by (rule battle_iteration_accuracy)
next
  assume h: "move_choice inp = Some mc \<and> 1 \<le> mc
            \<and> mc \<le> int (length (moves (player_pokemon b)))
            \<and> 0 < move_pp (moves (player_pokemon b) ! nat (mc - 1))
            \<and> calculate_damage (player_pokemon b) (moves (player_pokemon b) ! nat (mc - 1))
                  (opponent_pokemon b) (gen b) = Inr (damage, g')"
  then have mc: "move_choice inp = Some mc" and lo: "1 \<le> mc"
    and hi: "mc \<le> int (length (moves (player_pokemon b)))"
    and pp: "0 < move_pp (moves (player_pokemon b) ! nat (mc - 1))"
    and cd: "calculate_damage (player_pokemon b) (moves (player_pokemon b) ! nat (mc - 1))
               (opponent_pokemon b) (gen b) = Inr (damage, g')"
    by blast+
  note f = fight_action_hit [OF assms mc lo hi pp cd]
  show "fight_action b inp = Proceed (flow_state (fight_action b inp))" by (rule f(1))
  show "opponent_pokemon (flow_state (fight_action b inp))
          = fst (take_damage (opponent_pokemon b) damage)" by (rule f(2))
  show "gen (flow_state (fight_action b inp)) = g'" by (rule f(3))
  show "g' = (if move_power (moves (player_pokemon b) ! nat (mc - 1)) = 0 then gen b
              else (gen b)\<lparr>used := Suc (used (gen b))\<rparr>)"
    by (rule calculate_damage_draws [OF cd])
  show "last (shown (flow_state (fight_action b inp))) = AttackMissed \<longleftrightarrow> damage \<le> 0"
    by (rule f(4))
next
  assume h: "moves (opponent_pokemon b) \<noteq> []
            \<and> calculate_damage (opponent_pokemon b)
                  (moves (opponent_pokemon b)
                     ! (choice_src (gen b) (used (gen b)) mod length (moves (opponent_pokemon b))))
                  (player_pokemon b) ((gen b)\<lparr>used := Suc (used (gen b))\<rparr>)
                = Inr (odamage, og')"
  then have ne: "moves (opponent_pokemon b) \<noteq> []"
    and cd: "calculate_damage (opponent_pokemon b)
                  (moves (opponent_pokemon b)
                     ! (choice_src (gen b) (used (gen b)) mod length (moves (opponent_pokemon b))))
                  (player_pokemon b) ((gen b)\<lparr>used := Suc (used (gen b))\<rparr>)
                = Inr (odamage, og')"
    by blast+
  note o = opponent_turn_hit [OF assms ne cd]
  show "opponent_turn b = Proceed (flow_state (opponent_turn b))" by (rule o(1))
  show "player_pokemon (flow_state (opponent_turn b))
          = fst (take_damage (player_pokemon b) odamage)" by (rule o(2))
  show "gen (flow_state (opponent_turn b)) = og'" by (rule o(3))
  show "last (shown (flow_state (opponent_turn b))) = AttackMissed \<longleftrightarrow> odamage \<le> 0"
    by (rule o(4))
qed

theorem no_accuracy_check_witness:
  "wf_battle (start_of sure_miss hurt_rattata)
   \<and> move_choice (fight_with (Some 1)) = Some 1
   \<and> 0 < move_pp (moves (player_pokemon (start_of sure_miss hurt_rattata)) ! nat (1 - 1))
   \<and> calculate_damage (player_pokemon (start_of sure_miss hurt_rattata))
         (moves (player_pokemon (start_of sure_miss hurt_rattata)) ! nat (1 - 1))
         hurt_rattata fixed_rng = Inr (6, fixed_rng\<lparr>used := 1\<rparr>)
   \<and> moves hurt_rattata \<noteq> []
   \<and> calculate_damage hurt_rattata (moves hurt_rattata ! 0)
         (player_pokemon (start_of sure_miss hurt_rattata)) (fixed_rng\<lparr>used := 1\<rparr>)
       = Inr (5, fixed_rng\<lparr>used := 2\<rparr>)
   \<and> battle_iteration (battle_with_accuracy 100 (start_of sure_miss hurt_rattata))
         (fight_with (Some 1))
       = map_flow (battle_with_accuracy 100)
           (battle_iteration (start_of sure_miss hurt_rattata) (fight_with (Some 1)))
   \<and> opponent_pokemon (flow_state (fight_action (start_of sure_miss hurt_rattata)
                                       (fight_with (Some 1))))
       = fst (take_damage hurt_rattata 6)
   \<and> last (shown (flow_state (fight_action (start_of sure_miss hurt_rattata)
                                  (fight_with (Some 1))))) \<noteq> AttackMissed
   \<and> player_pokemon (flow_state (opponent_turn (start_of sure_miss hurt_rattata)))
       = fst (take_damage (player_pokemon (start_of sure_miss hurt_rattata)) 5)"
proof -
  let ?b = "start_of sure_miss hurt_rattata"
  let ?inp = "fight_with (Some 1)"
  have w: "wf_battle ?b"
    by (simp add: wf_battle_def start_of_def sure_miss_def)
  have g: "gen ?b = fixed_rng" "opponent_pokemon ?b = hurt_rattata"
    by (simp_all add: start_of_def)
  have mc: "move_choice ?inp = Some 1" by (simp add: fight_with_def)
  have len: "(1::int) \<le> int (length (moves (player_pokemon ?b)))"
    by (simp add: start_of_def sure_miss_def player_pokemon_def)
  have pp: "0 < move_pp (moves (player_pokemon ?b) ! nat (1 - 1))"
    by (simp add: start_of_def sure_miss_def player_pokemon_def mk_move_def)
  have cd: "calculate_damage (player_pokemon ?b) (moves (player_pokemon ?b) ! nat (1 - 1))
              hurt_rattata fixed_rng = Inr (6, fixed_rng\<lparr>used := 1\<rparr>)"
    by (simp add: start_of_def sure_miss_def hurt_rattata_def battle_defs world_defs eval_defs
        cong: let_weak_cong)
  have ne: "moves hurt_rattata \<noteq> []"
    by (simp add: hurt_rattata_def eval_defs)
  have ch: "choice_src fixed_rng (used fixed_rng) mod length (moves hurt_rattata) = 0"
    by (simp add: fixed_rng_def)
  have us: "fixed_rng\<lparr>used := Suc (used fixed_rng)\<rparr> = fixed_rng\<lparr>used := 1\<rparr>"
    by (simp add: fixed_rng_def)
  have od: "calculate_damage hurt_rattata (moves hurt_rattata ! 0) (player_pokemon ?b)
              (fixed_rng\<lparr>used := 1\<rparr>) = Inr (5, fixed_rng\<lparr>used := 2\<rparr>)"
    by (simp add: start_of_def sure_miss_def hurt_rattata_def battle_defs world_defs eval_defs
        cong: let_weak_cong)
  note inst = no_accuracy_check [OF w, where x = 100 and inp = ?inp and mc = 1 and damage = 6
      and g' = "fixed_rng\<lparr>used := 1\<rparr>" and odamage = 5 and og' = "fixed_rng\<lparr>used := 2\<rparr>"]
  have i1: "battle_iteration (battle_with_accuracy 100 ?b) ?inp
              = map_flow (battle_with_accuracy 100) (battle_iteration ?b ?inp)"
    using inst by blast
  have i2: "opponent_pokemon (flow_state (fight_action ?b ?inp)) = fst (take_damage hurt_rattata 6)
            \<and> (last (shown (flow_state (fight_action ?b ?inp))) = AttackMissed \<longleftrightarrow> (6::int) \<le> 0)"
    using inst mc len pp cd by (simp add: g)
  have i3: "player_pokemon (flow_state (opponent_turn ?b))
              = fst (take_damage (player_pokemon ?b) 5)"
    using inst ne od by (simp add: g ch us)
  from w mc pp cd ne od i1 i2 i3 show ?thesis by simp
qed

end
